theory Spec2Isabelle
  imports Complex_Main
begin

section \<open>Strings and the pairing-code generator\<close>

text \<open>
  The sources name their files as the repository does. Three files of the sources hold
  a second file after their own text: src/routes/restaurants.js holds routes/displays.js
  (from its line 110), src/Dockerfile holds models/Item.js (from its line 21), and
  src/unnamed/part_001 holds the seed script (from its line 31). models/Menu.js is
  src/unnamed/part_000, and src/unnamed/part_004 is a second server file.

  Both \<^verbatim>\<open>displaySchema.pre('save')\<close> (models/Display.js) and the regenerate route
  (routes/displays.js) compute a code as
  \<^verbatim>\<open>Math.random().toString(36).substring(2, 8).toUpperCase()\<close>.
  The value of \<^verbatim>\<open>Math.random().toString(36)\<close> is the input \<open>r\<close> of the model: the
  string \<open>0\<close>, or \<open>0.\<close> followed by the base-36 digits of the fraction
  (\<open>radix36_fraction\<close>). Strings are ASCII.
\<close>

definition lowerLetters :: string where
  "lowerLetters = ''abcdefghijklmnopqrstuvwxyz''"

definition upperLetters :: string where
  "upperLetters = ''ABCDEFGHIJKLMNOPQRSTUVWXYZ''"

definition digitChars :: string where
  "digitChars = ''0123456789''"

definition toUpperCase_char :: "char \<Rightarrow> char" where
  "toUpperCase_char c =
     (case map_of (zip lowerLetters upperLetters) c of Some u \<Rightarrow> u | None \<Rightarrow> c)"

definition toUpperCase :: "string \<Rightarrow> string" where
  "toUpperCase s = map toUpperCase_char s"

text \<open>What \<^verbatim>\<open>toString()\<close> of an ObjectId does with the hexadecimal digits
  \<open>A\<close> to \<open>F\<close>: it prints them in lower case.\<close>

definition toLowerCase_char :: "char \<Rightarrow> char" where
  "toLowerCase_char c =
     (case map_of (zip upperLetters lowerLetters) c of Some l \<Rightarrow> l | None \<Rightarrow> c)"

definition toLowerCase :: "string \<Rightarrow> string" where
  "toLowerCase s = map toLowerCase_char s"

text \<open>\<^verbatim>\<open>str.substring(s, e)\<close>: the characters from index \<open>min s e\<close> up to, not
  including, index \<open>max s e\<close>, both clamped to the length.\<close>

definition substring :: "nat \<Rightarrow> nat \<Rightarrow> string \<Rightarrow> string" where
  "substring s e str = (let a = min s e; b = max s e in take (b - a) (drop a str))"

definition generateCode :: "string \<Rightarrow> string" where
  "generateCode r = toUpperCase (substring 2 8 r)"

definition radix36_fraction :: "string \<Rightarrow> bool" where
  "radix36_fraction r =
     (r = ''0'' \<or>
      (take 2 r = ''0.'' \<and> drop 2 r \<noteq> [] \<and>
       list_all (\<lambda>c. c \<in> set (digitChars @ lowerLetters)) (drop 2 r)))"

text \<open>\<^verbatim>\<open>str.trim()\<close>, and the \<^verbatim>\<open>trim: true\<close> setter of a schema string, on ASCII
  white space.\<close>

definition isSpace :: "char \<Rightarrow> bool" where
  "isSpace c = (c \<in> set [CHR '' '', CHR 0x09, CHR 0x0A, CHR 0x0B, CHR 0x0C, CHR 0x0D])"

definition trim :: "string \<Rightarrow> string" where
  "trim s = rev (dropWhile isSpace (rev (dropWhile isSpace s)))"

definition startsWith :: "string \<Rightarrow> string \<Rightarrow> bool" where
  "startsWith s p = (take (length p) s = p)"

text \<open>\<^verbatim>\<open>isMongoId()\<close> of express-validator: 24 hexadecimal digits.\<close>

definition isMongoId :: "string \<Rightarrow> bool" where
  "isMongoId s =
     (length s = 24 \<and> list_all (\<lambda>c. c \<in> set ''0123456789abcdefABCDEF'') s)"

section \<open>Documents\<close>

text \<open>
  An ObjectId is modelled by the string its \<^verbatim>\<open>toString()\<close> returns: 24 hexadecimal
  digits, the letters in lower case. A route parameter, a body field and a room-key
  template hold strings as the client sent them. Wherever a query, a constructor or a
  setter takes an id, mongoose casts the string to an ObjectId: a string of 24
  hexadecimal digits, of either case (\<open>hex24\<close>), is cast to the id that prints as the
  string in lower case, and any other string raises a \<^verbatim>\<open>CastError\<close> (\<open>None\<close>).
  (Some versions of the driver also take a string of 12 characters, as 12 bytes; the
  model does not.) Every schema sets \<^verbatim>\<open>timestamps: true\<close>.
\<close>

type_synonym oid = string
type_synonym timestamp = nat

definition hex24 :: "string \<Rightarrow> bool" where
  "hex24 s = (length s = 24 \<and> list_all (\<lambda>c. c \<in> set ''0123456789abcdefABCDEF'') s)"

definition castObjectId :: "string \<Rightarrow> oid option" where
  "castObjectId s = (if hex24 s then Some (toLowerCase s) else None)"

text \<open>A path of a document that the schema gives no default: \<^verbatim>\<open>undefined\<close> until it
  is set, \<^verbatim>\<open>null\<close> once \<^verbatim>\<open>null\<close> is assigned, or a value. JSON leaves an
  \<^verbatim>\<open>undefined\<close> property out and prints \<^verbatim>\<open>null\<close>.\<close>

datatype 'a nullable = Absent | Null | Val 'a

text \<open>models/Menu.js\<close>

record menu =
  m_id :: oid
  m_name :: string
  m_description :: "string option"
  m_items :: "oid list"
  m_createdAt :: timestamp
  m_updatedAt :: timestamp

text \<open>The \<^verbatim>\<open>currentMenu\<close> path of a display document holds an ObjectId, or the menu
  document itself after \<^verbatim>\<open>populate('currentMenu')\<close>.\<close>

datatype menu_ref = Ref oid | Populated menu

datatype media_type = Image | Video

text \<open>models/Display.js. \<^verbatim>\<open>pairingCode\<close> is absent (\<open>None\<close>) until the first
  save; \<^verbatim>\<open>mediaType\<close> has the default \<^verbatim>\<open>null\<close> (\<open>None\<close>), so it is never
  absent.\<close>

record display =
  d_id :: oid
  d_name :: string
  pairingCode :: "string option"
  currentMenu :: "menu_ref nullable"
  mediaUrl :: "string nullable"
  mediaType :: "media_type option"
  createdAt :: timestamp
  updatedAt :: timestamp

text \<open>models/Restaurant.js\<close>

record restaurant =
  r_id :: oid
  r_name :: string
  owner :: oid
  r_menus :: "oid list"
  r_items :: "oid list"
  r_displays :: "oid list"
  r_schedules :: "oid list"
  r_createdAt :: timestamp
  r_updatedAt :: timestamp

text \<open>
  models/Item.js. The schema declares the six paths below (and the timestamps); it
  declares no \<^verbatim>\<open>restaurant\<close> path and sets no \<^verbatim>\<open>strict\<close> option, so it is
  strict: a \<^verbatim>\<open>restaurant\<close> value handed to \<^verbatim>\<open>new Item({...})\<close> is dropped, and
  the property \<^verbatim>\<open>item.restaurant\<close> of an item document reads \<^verbatim>\<open>undefined\<close>
  (\<open>item_restaurant\<close>).
\<close>

record item =
  i_id :: oid
  i_name :: string
  i_description :: "string option"
  price :: rat
  imageUrl :: "string option"
  category :: string
  isAvailable :: bool
  i_createdAt :: timestamp
  i_updatedAt :: timestamp

definition item_restaurant :: "item \<Rightarrow> oid option" where
  "item_restaurant it = None"

text \<open>Modelled from the spec: models/User.js is not among the sources; a user is
  its identifier and its e-mail address (the one field the routes populate).\<close>

record user =
  u_id :: oid
  email :: string

section \<open>The transformed display\<close>

text \<open>
  \<^verbatim>\<open>transformDisplay\<close> of routes/displays.js. After \<^verbatim>\<open>toObject()\<close> the
  \<^verbatim>\<open>currentMenu\<close> path holds a populated menu (a plain object) or an ObjectId. Both
  are objects, and both have a truthy \<^verbatim>\<open>_id\<close>: mongoose gives every ObjectId an
  \<^verbatim>\<open>_id\<close> getter that returns the ObjectId itself. So the test
  \<^verbatim>\<open>typeof doc.currentMenu === 'object' && doc.currentMenu._id\<close> holds of both
  (\<open>ref_id\<close>), and the branch the source comments as "It's just an ObjectId" is taken
  by neither. An ObjectId has no \<^verbatim>\<open>name\<close>, \<^verbatim>\<open>description\<close> or \<^verbatim>\<open>items\<close>
  property: they read \<^verbatim>\<open>undefined\<close>, and \<^verbatim>\<open>doc.currentMenu.items || []\<close> is the
  empty array.
\<close>

definition ref_id :: "menu_ref \<Rightarrow> oid option" where
  "ref_id v = (case v of Populated m \<Rightarrow> Some (m_id m) | Ref i \<Rightarrow> Some i)"

definition ref_name :: "menu_ref \<Rightarrow> string option" where
  "ref_name v = (case v of Populated m \<Rightarrow> Some (m_name m) | Ref i \<Rightarrow> None)"

definition ref_description :: "menu_ref \<Rightarrow> string option" where
  "ref_description v = (case v of Populated m \<Rightarrow> m_description m | Ref i \<Rightarrow> None)"

definition ref_items :: "menu_ref \<Rightarrow> oid list option" where
  "ref_items v = (case v of Populated m \<Rightarrow> Some (m_items m) | Ref i \<Rightarrow> None)"

text \<open>The object with \<^verbatim>\<open>id\<close>, \<^verbatim>\<open>name\<close>, \<^verbatim>\<open>description\<close> and \<^verbatim>\<open>items\<close>
  of the first branch (an \<^verbatim>\<open>undefined\<close> name or description is \<open>None\<close>), and the
  value as it is of the second.\<close>

record flat_menu =
  fm_id :: oid
  fm_name :: "string option"
  fm_description :: "string option"
  fm_items :: "oid list"

datatype menu_view = FlatMenu flat_menu | Unchanged menu_ref

record transformed_display =
  t_id :: oid
  t_name :: string
  t_pairingCode :: "string option"
  t_currentMenu :: "menu_view option"
  t_mediaUrl :: "string nullable"
  t_mediaType :: "media_type option"
  t_createdAt :: timestamp
  t_updatedAt :: timestamp

definition transform_currentMenu :: "menu_ref nullable \<Rightarrow> menu_view option" where
  "transform_currentMenu cm =
     (case cm of
        Absent \<Rightarrow> None
      | Null \<Rightarrow> None
      | Val v \<Rightarrow>
          (case ref_id v of
             Some i \<Rightarrow>
               Some (FlatMenu \<lparr>fm_id = i, fm_name = ref_name v,
                       fm_description = ref_description v,
                       fm_items = (case ref_items v of None \<Rightarrow> [] | Some xs \<Rightarrow> xs)\<rparr>)
           | None \<Rightarrow> Some (Unchanged v)))"

definition transformDisplay :: "display option \<Rightarrow> transformed_display option" where
  "transformDisplay display =
     (case display of
        None \<Rightarrow> None
      | Some doc \<Rightarrow>
          Some \<lparr>t_id = d_id doc, t_name = d_name doc, t_pairingCode = pairingCode doc,
                t_currentMenu = transform_currentMenu (currentMenu doc),
                t_mediaUrl = mediaUrl doc, t_mediaType = mediaType doc,
                t_createdAt = createdAt doc, t_updatedAt = updatedAt doc\<rparr>)"

section \<open>The store and the broadcast channel\<close>

text \<open>
  A collection is the list of its documents in insertion order. The socket.io server
  is the list of (socket, room) memberships, the log of every
  \<^verbatim>\<open>io.to(room).emit(event, payload)\<close> and the log of what each socket received.
\<close>

type_synonym socket_id = string
type_synonym room = string

datatype payload =
    DisplayPayload "transformed_display option"
  | DisplayPaired oid string
  | MenuAssigned string "string option"
  | MediaUploaded string string media_type
  | MediaRemoved string
  | DisplayDeleted string
  | MenuPayload menu
  | MenuDeleted string
  | ItemAvailabilityChanged oid bool

record state =
  Users :: "user list"
  Restaurants :: "restaurant list"
  Menus :: "menu list"
  Items :: "item list"
  Displays :: "display list"
  joined :: "(socket_id \<times> room) list"
  emitted :: "(room \<times> string \<times> payload) list"
  delivered :: "(socket_id \<times> string \<times> payload) list"

definition members :: "state \<Rightarrow> room \<Rightarrow> socket_id list" where
  "members st rm = map fst (filter (\<lambda>m. snd m = rm) (joined st))"

definition emit :: "room \<Rightarrow> string \<Rightarrow> payload \<Rightarrow> state \<Rightarrow> state" where
  "emit rm event p st =
     st\<lparr>emitted := emitted st @ [(rm, event, p)],
        delivered := delivered st @ map (\<lambda>s. (s, event, p)) (members st rm)\<rparr>"

definition join :: "socket_id \<Rightarrow> room \<Rightarrow> state \<Rightarrow> state" where
  "join s rm st =
     (if (s, rm) \<in> set (joined st) then st else st\<lparr>joined := joined st @ [(s, rm)]\<rparr>)"

text \<open>The socket handlers of index.js.\<close>

definition on_join_display :: "socket_id \<Rightarrow> string \<Rightarrow> state \<Rightarrow> state" where
  "on_join_display s displayId st = join s (''display-'' @ displayId) st"

definition on_pair_display :: "socket_id \<Rightarrow> string \<Rightarrow> state \<Rightarrow> state" where
  "on_pair_display s code st = join s (''pairing-'' @ code) st"

definition on_disconnect :: "socket_id \<Rightarrow> state \<Rightarrow> state" where
  "on_disconnect s st = st\<lparr>joined := filter (\<lambda>m. fst m \<noteq> s) (joined st)\<rparr>"

section \<open>The document store: queries, hooks and save\<close>

text \<open>The document of a collection with a given ObjectId.\<close>

definition display_by_id :: "display list \<Rightarrow> oid \<Rightarrow> display option" where
  "display_by_id ds i = find (\<lambda>d. d_id d = i) ds"

definition menu_by_id :: "menu list \<Rightarrow> oid \<Rightarrow> menu option" where
  "menu_by_id ms i = find (\<lambda>m. m_id m = i) ms"

definition restaurant_by_id :: "restaurant list \<Rightarrow> oid \<Rightarrow> restaurant option" where
  "restaurant_by_id rs i = find (\<lambda>r. r_id r = i) rs"

definition item_by_id :: "item list \<Rightarrow> oid \<Rightarrow> item option" where
  "item_by_id xs i = find (\<lambda>x. i_id x = i) xs"

definition user_by_id :: "user list \<Rightarrow> oid \<Rightarrow> user option" where
  "user_by_id us i = find (\<lambda>u. u_id u = i) us"

text \<open>\<^verbatim>\<open>Model.findById(id)\<close> with the string of a route parameter or body field: the
  string is cast, and the document with that ObjectId is looked up. A handler has
  first asked whether the string casts at all (\<open>castObjectId\<close>): when it does not,
  \<^verbatim>\<open>findById\<close> throws and the handler's \<^verbatim>\<open>catch\<close> answers.\<close>

definition findById_display :: "display list \<Rightarrow> string \<Rightarrow> display option" where
  "findById_display ds i =
     (case castObjectId i of None \<Rightarrow> None | Some j \<Rightarrow> display_by_id ds j)"

definition findById_menu :: "menu list \<Rightarrow> string \<Rightarrow> menu option" where
  "findById_menu ms i =
     (case castObjectId i of None \<Rightarrow> None | Some j \<Rightarrow> menu_by_id ms j)"

definition findById_restaurant :: "restaurant list \<Rightarrow> string \<Rightarrow> restaurant option" where
  "findById_restaurant rs i =
     (case castObjectId i of None \<Rightarrow> None | Some j \<Rightarrow> restaurant_by_id rs j)"

definition findById_item :: "item list \<Rightarrow> string \<Rightarrow> item option" where
  "findById_item xs i =
     (case castObjectId i of None \<Rightarrow> None | Some j \<Rightarrow> item_by_id xs j)"

text \<open>\<^verbatim>\<open>Restaurant.findById(item.restaurant)\<close>: \<^verbatim>\<open>findById(undefined)\<close> finds
  nothing.\<close>

definition findById_restaurant_opt :: "restaurant list \<Rightarrow> oid option \<Rightarrow> restaurant option" where
  "findById_restaurant_opt rs i =
     (case i of None \<Rightarrow> None | Some j \<Rightarrow> restaurant_by_id rs j)"

text \<open>\<^verbatim>\<open>Display.findOne({ pairingCode })\<close>: case-sensitive equality on the field.\<close>

definition findOne_pairingCode :: "display list \<Rightarrow> string \<Rightarrow> display option" where
  "findOne_pairingCode ds code = find (\<lambda>d. pairingCode d = Some code) ds"

text \<open>\<^verbatim>\<open>Restaurant.findOne({ menus: menuId })\<close> and
  \<^verbatim>\<open>Restaurant.findOne({ displays: displayId })\<close>: the string is cast, and the first
  restaurant whose array holds that ObjectId is returned.\<close>

definition findOne_by_menu :: "restaurant list \<Rightarrow> string \<Rightarrow> restaurant option" where
  "findOne_by_menu rs menuId =
     (case castObjectId menuId of
        None \<Rightarrow> None
      | Some j \<Rightarrow> find (\<lambda>r. j \<in> set (r_menus r)) rs)"

definition findOne_by_display :: "restaurant list \<Rightarrow> string \<Rightarrow> restaurant option" where
  "findOne_by_display rs displayId =
     (case castObjectId displayId of
        None \<Rightarrow> None
      | Some j \<Rightarrow> find (\<lambda>r. j \<in> set (r_displays r)) rs)"

text \<open>\<^verbatim>\<open>Display.findByIdAndDelete(displayId)\<close> and
  \<^verbatim>\<open>Menu.findByIdAndDelete(menuId)\<close>: the string is cast, and the document with
  that ObjectId is removed.\<close>

definition findByIdAndDelete_display :: "display list \<Rightarrow> string \<Rightarrow> display list" where
  "findByIdAndDelete_display ds i = filter (\<lambda>d. Some (d_id d) \<noteq> castObjectId i) ds"

definition findByIdAndDelete_menu :: "menu list \<Rightarrow> string \<Rightarrow> menu list" where
  "findByIdAndDelete_menu ms i = filter (\<lambda>m. Some (m_id m) \<noteq> castObjectId i) ms"

text \<open>\<^verbatim>\<open>.populate('currentMenu')\<close>: the referenced menu document, or \<^verbatim>\<open>null\<close>
  when no menu has that id.\<close>

definition populate_currentMenu :: "menu list \<Rightarrow> display \<Rightarrow> display" where
  "populate_currentMenu ms d =
     (case currentMenu d of
        Val (Ref i) \<Rightarrow>
          d\<lparr>currentMenu := (case menu_by_id ms i of None \<Rightarrow> Null | Some m \<Rightarrow> Val (Populated m))\<rparr>
      | _ \<Rightarrow> d)"

text \<open>What \<^verbatim>\<open>save()\<close> throws: a schema validation error, or the duplicate-key
  error (E11000) of a unique index.\<close>

datatype store_error = ValidationError | DuplicateKey

text \<open>JavaScript's \<^verbatim>\<open>!value\<close> on an optional string.\<close>

definition falsy :: "string option \<Rightarrow> bool" where
  "falsy v = (case v of None \<Rightarrow> True | Some s \<Rightarrow> s = [])"

text \<open>The pre-save hook that \<^verbatim>\<open>timestamps: true\<close> installs: a new document gets both
  timestamps, a modified one a new \<^verbatim>\<open>updatedAt\<close>. A document is modified when an
  assignment gave a path a value that differs from the one it had, \<^verbatim>\<open>null\<close> for an
  absent path included.\<close>

definition timestamps_pre_save :: "timestamp \<Rightarrow> bool \<Rightarrow> bool \<Rightarrow> display \<Rightarrow> display" where
  "timestamps_pre_save now isNew modified doc =
     (if isNew then doc\<lparr>createdAt := now, updatedAt := now\<rparr>
      else if modified then doc\<lparr>updatedAt := now\<rparr>
      else doc)"

text \<open>\<^verbatim>\<open>displaySchema.pre('save')\<close> of models/Display.js; \<open>r\<close> is the value of
  \<^verbatim>\<open>Math.random().toString(36)\<close> it would draw.\<close>

definition displaySchema_pre_save :: "string \<Rightarrow> display \<Rightarrow> display" where
  "displaySchema_pre_save r doc =
     (if falsy (pairingCode doc) then doc\<lparr>pairingCode := Some (generateCode r)\<rparr> else doc)"

text \<open>The \<^verbatim>\<open>unique: true, sparse: true\<close> index on \<^verbatim>\<open>pairingCode\<close>: a write is
  rejected when another document holds the same code.\<close>

definition duplicate_pairingCode :: "display list \<Rightarrow> display \<Rightarrow> bool" where
  "duplicate_pairingCode ds doc =
     (case pairingCode doc of
        None \<Rightarrow> False
      | Some c \<Rightarrow> list_ex (\<lambda>e. d_id e \<noteq> d_id doc \<and> pairingCode e = Some c) ds)"

definition replace_display :: "display \<Rightarrow> display list \<Rightarrow> display list" where
  "replace_display doc ds = map (\<lambda>e. if d_id e = d_id doc then doc else e) ds"

text \<open>\<^verbatim>\<open>display.save()\<close>: the hooks, the \<^verbatim>\<open>required\<close> validator of \<^verbatim>\<open>name\<close>,
  the unique index, then one write of the document (an insert when the document is
  new). It returns the collection and the document as saved.\<close>

definition Display_save ::
  "display list \<Rightarrow> timestamp \<Rightarrow> string \<Rightarrow> bool \<Rightarrow> display \<Rightarrow>
     store_error + (display list \<times> display)" where
  "Display_save ds now r isNew doc =
     (let modified = (display_by_id ds (d_id doc) \<noteq> Some doc);
          doc1 = timestamps_pre_save now isNew modified doc;
          doc2 = displaySchema_pre_save r doc1
      in if d_name doc2 = [] then Inl ValidationError
         else if duplicate_pairingCode ds doc2 then Inl DuplicateKey
         else if isNew then
           (if list_ex (\<lambda>e. d_id e = d_id doc2) ds then Inl DuplicateKey
            else Inr (ds @ [doc2], doc2))
         else Inr (replace_display doc2 ds, doc2))"

definition Restaurant_save :: "restaurant list \<Rightarrow> timestamp \<Rightarrow> restaurant \<Rightarrow> restaurant list" where
  "Restaurant_save rs now doc =
     (if restaurant_by_id rs (r_id doc) = Some doc then rs
      else map (\<lambda>e. if r_id e = r_id doc then doc\<lparr>r_updatedAt := now\<rparr> else e) rs)"

definition Menu_save :: "menu list \<Rightarrow> timestamp \<Rightarrow> menu \<Rightarrow> store_error + (menu list \<times> menu)" where
  "Menu_save ms now doc =
     (if m_name doc = [] then Inl ValidationError
      else if menu_by_id ms (m_id doc) = Some doc then Inr (ms, doc)
      else (let doc1 = doc\<lparr>m_updatedAt := now\<rparr>
            in Inr (map (\<lambda>e. if m_id e = m_id doc1 then doc1 else e) ms, doc1)))"

definition Item_save :: "item list \<Rightarrow> timestamp \<Rightarrow> item \<Rightarrow> item list \<times> item" where
  "Item_save xs now doc =
     (if item_by_id xs (i_id doc) = Some doc then (xs, doc)
      else (let doc1 = doc\<lparr>i_updatedAt := now\<rparr>
            in (map (\<lambda>e. if i_id e = i_id doc1 then doc1 else e) xs, doc1)))"

section \<open>Requests, responses and middleware\<close>

datatype http_error = HttpError nat string

record populated_restaurant =
  pr_id :: oid
  pr_name :: string
  pr_owner :: user
  pr_menus :: "menu list"
  pr_items :: "item list"
  pr_displays :: "display list"
  pr_schedules :: "oid list"
  pr_createdAt :: timestamp
  pr_updatedAt :: timestamp

datatype body =
    DisplayBody "transformed_display option"
  | DisplaysBody "transformed_display option list"
  | PairedBody string oid string
  | PairingCodeBody string string
  | MessageBody string
  | MenuBody menu
  | ItemBody item
  | RestaurantBody populated_restaurant

type_synonym result = "http_error + (state \<times> nat \<times> body)"

text \<open>What a request draws from its environment: the clock, the ObjectId of a new
  document, and the values of its first and second
  \<^verbatim>\<open>Math.random().toString(36)\<close>.\<close>

record env =
  e_now :: timestamp
  e_newId :: oid
  e_random :: string
  e_random2 :: string

text \<open>Modelled from the spec: middleware/auth.js is not among the sources. The spec
  has every protected route "require a bearer credential resolved to a user", a
  missing, invalid or expired credential being \<open>Unauthenticated\<close>, 401. \<open>verify\<close>
  resolves a credential to the user id it was issued for.\<close>

definition authenticateToken :: "(string \<Rightarrow> oid option) \<Rightarrow> string option \<Rightarrow> http_error + oid" where
  "authenticateToken verify bearer =
     (case bearer of
        None \<Rightarrow> Inl (HttpError 401 ''Unauthenticated'')
      | Some token \<Rightarrow>
          (case verify token of
             None \<Rightarrow> Inl (HttpError 401 ''Unauthenticated'')
           | Some uid \<Rightarrow> Inr uid))"

text \<open>Modelled from the spec: middleware/validation.js is not among the sources. The
  spec has malformed or missing required fields be a \<open>ValidationError\<close>, 400.\<close>

definition validateRequest :: "bool \<Rightarrow> http_error option" where
  "validateRequest valid = (if valid then None else Some (HttpError 400 ''Validation failed''))"

record display_body =
  b_name :: "string option"
  b_currentMenu :: "string option"

text \<open>\<^verbatim>\<open>displayValidation\<close>: \<^verbatim>\<open>body('name').notEmpty().trim()\<close> and
  \<^verbatim>\<open>body('currentMenu').optional().isMongoId()\<close>; the sanitizer runs after the
  validator of its chain.\<close>

definition displayValidation :: "display_body \<Rightarrow> bool" where
  "displayValidation b =
     ((case b_name b of None \<Rightarrow> False | Some n \<Rightarrow> n \<noteq> []) \<and>
      (case b_currentMenu b of None \<Rightarrow> True | Some i \<Rightarrow> isMongoId i))"

definition displaySanitize :: "display_body \<Rightarrow> display_body" where
  "displaySanitize b = b\<lparr>b_name := map_option trim (b_name b)\<rparr>"

record menu_body =
  mb_name :: "string option"
  mb_description :: "string option"
  mb_items :: "string list option"

text \<open>\<^verbatim>\<open>menuValidation\<close>: \<^verbatim>\<open>body('name').notEmpty().trim()\<close>,
  \<^verbatim>\<open>body('description').optional().trim()\<close>, \<^verbatim>\<open>body('items').optional().isArray()\<close>
  (a list is an array).\<close>

definition menuValidation :: "menu_body \<Rightarrow> bool" where
  "menuValidation b = (case mb_name b of None \<Rightarrow> False | Some n \<Rightarrow> n \<noteq> [])"

definition menuSanitize :: "menu_body \<Rightarrow> menu_body" where
  "menuSanitize b =
     b\<lparr>mb_name := map_option trim (mb_name b),
       mb_description := map_option trim (mb_description b)\<rparr>"

text \<open>An uploaded file as multer hands it over, and \<^verbatim>\<open>upload.single('media')\<close> of
  routes/displays.js: a file that is neither image nor video, or larger than 50MB,
  is an error passed to the error handler of index.js.\<close>

record upload_file =
  mimetype :: string
  filename :: string
  fileSize :: nat

definition upload_single_media :: "upload_file option \<Rightarrow> http_error + upload_file option" where
  "upload_single_media file =
     (case file of
        None \<Rightarrow> Inr None
      | Some f \<Rightarrow>
          if startsWith (mimetype f) ''image/'' \<or> startsWith (mimetype f) ''video/'' then
            (if fileSize f > 50 * 1024 * 1024 then Inl (HttpError 500 ''Something went wrong!'')
             else Inr (Some f))
          else Inl (HttpError 500 ''Something went wrong!''))"

section \<open>routes/displays.js\<close>

text \<open>Each handler takes the state and returns the error response, or the new state
  with the status and body of the response. A handler's \<^verbatim>\<open>catch\<close> answers every
  exception with its own 500 response: the \<^verbatim>\<open>CastError\<close> of a query whose id does
  not cast, and whatever \<^verbatim>\<open>save()\<close> throws. Room names and event payloads are built
  from the strings of the request, as the client sent them.\<close>

text \<open>\<^verbatim>\<open>new Display({ name, currentMenu })\<close>: the constructor casts the reference. A
  reference that does not cast leaves the path unset and makes \<^verbatim>\<open>save()\<close> throw
  (\<open>uncastable\<close>).\<close>

definition uncastable :: "string option \<Rightarrow> bool" where
  "uncastable v = (case v of None \<Rightarrow> False | Some s \<Rightarrow> castObjectId s = None)"

definition cast_ref :: "string \<Rightarrow> menu_ref nullable" where
  "cast_ref s = (case castObjectId s of None \<Rightarrow> Absent | Some j \<Rightarrow> Val (Ref j))"

definition new_Display :: "oid \<Rightarrow> string option \<Rightarrow> string option \<Rightarrow> display" where
  "new_Display i name cm =
     \<lparr>d_id = i, d_name = (case name of None \<Rightarrow> [] | Some n \<Rightarrow> trim n),
      pairingCode = None,
      currentMenu = (case cm of None \<Rightarrow> Absent | Some s \<Rightarrow> cast_ref s),
      mediaUrl = Absent, mediaType = None, createdAt = 0, updatedAt = 0\<rparr>"

text \<open>\<^verbatim>\<open>POST /restaurants/:restaurantId\<close>\<close>

definition create_display :: "state \<Rightarrow> env \<Rightarrow> oid \<Rightarrow> string \<Rightarrow> display_body \<Rightarrow> result" where
  "create_display st e uid restaurantId b =
     (if castObjectId restaurantId = None then Inl (HttpError 500 ''Failed to create display'')
      else
        (case findById_restaurant (Restaurants st) restaurantId of
           None \<Rightarrow> Inl (HttpError 403 ''Access denied'')
         | Some restaurant \<Rightarrow>
             if owner restaurant \<noteq> uid then Inl (HttpError 403 ''Access denied'')
             else if uncastable (b_currentMenu b) then
               Inl (HttpError 500 ''Failed to create display'')
             else
               (case Display_save (Displays st) (e_now e) (e_random e) True
                       (new_Display (e_newId e) (b_name b) (b_currentMenu b)) of
                  Inl err \<Rightarrow> Inl (HttpError 500 ''Failed to create display'')
                | Inr (ds, display) \<Rightarrow>
                    (let restaurant1 =
                           restaurant\<lparr>r_displays := r_displays restaurant @ [d_id display]\<rparr>;
                         st1 = st\<lparr>Displays := ds\<rparr>;
                         st2 = st1\<lparr>Restaurants :=
                                 Restaurant_save (Restaurants st1) (e_now e) restaurant1\<rparr>;
                         st3 = emit (''restaurant-'' @ restaurantId) ''display-created''
                                 (DisplayPayload (transformDisplay (Some display))) st2
                     in Inr (st3, 201, DisplayBody (transformDisplay (Some display)))))))"

text \<open>\<^verbatim>\<open>GET /restaurants/:restaurantId\<close>\<close>

definition list_displays :: "state \<Rightarrow> oid \<Rightarrow> string \<Rightarrow> result" where
  "list_displays st uid restaurantId =
     (if castObjectId restaurantId = None then Inl (HttpError 500 ''Failed to fetch displays'')
      else
        (case findById_restaurant (Restaurants st) restaurantId of
           None \<Rightarrow> Inl (HttpError 403 ''Access denied'')
         | Some restaurant \<Rightarrow>
             if owner restaurant \<noteq> uid then Inl (HttpError 403 ''Access denied'')
             else
               (let displays =
                      map (populate_currentMenu (Menus st))
                        (filter (\<lambda>d. d_id d \<in> set (r_displays restaurant)) (Displays st))
                in Inr (st, 200, DisplaysBody (map (\<lambda>d. transformDisplay (Some d)) displays)))))"

text \<open>\<^verbatim>\<open>PUT /:displayId\<close>\<close>

definition update_display :: "state \<Rightarrow> env \<Rightarrow> string \<Rightarrow> display_body \<Rightarrow> result" where
  "update_display st e displayId b =
     (if castObjectId displayId = None then Inl (HttpError 500 ''Failed to update display'')
      else
        (case findById_display (Displays st) displayId of
           None \<Rightarrow> Inl (HttpError 404 ''Display not found'')
         | Some display \<Rightarrow>
             if uncastable (b_currentMenu b) then Inl (HttpError 500 ''Failed to update display'')
             else
               (let d1 = (case b_name b of None \<Rightarrow> display
                          | Some n \<Rightarrow> display\<lparr>d_name := trim n\<rparr>);
                    d2 = (case b_currentMenu b of None \<Rightarrow> d1
                          | Some m \<Rightarrow> d1\<lparr>currentMenu := cast_ref m\<rparr>)
                in case Display_save (Displays st) (e_now e) (e_random e) False d2 of
                     Inl err \<Rightarrow> Inl (HttpError 500 ''Failed to update display'')
                   | Inr (ds, saved) \<Rightarrow>
                       Inr (emit (''display-'' @ displayId) ''display-updated''
                              (DisplayPayload (transformDisplay (Some saved)))
                              (st\<lparr>Displays := ds\<rparr>),
                            200, DisplayBody (transformDisplay (Some saved))))))"

text \<open>\<^verbatim>\<open>POST /pair\<close>\<close>

definition pair_display :: "state \<Rightarrow> string option \<Rightarrow> result" where
  "pair_display st code =
     (case code of
        None \<Rightarrow> Inl (HttpError 400 ''Pairing code is required'')
      | Some c \<Rightarrow>
          if c = [] then Inl (HttpError 400 ''Pairing code is required'')
          else
            (case findOne_pairingCode (Displays st) c of
               None \<Rightarrow> Inl (HttpError 404 ''Invalid pairing code'')
             | Some display \<Rightarrow>
                 Inr (emit (''pairing-'' @ c) ''display-paired''
                        (DisplayPaired (d_id display) (d_name display)) st,
                      200,
                      PairedBody ''Display paired successfully'' (d_id display) (d_name display))))"

text \<open>\<^verbatim>\<open>GET /pair/:pairingCode\<close>\<close>

definition get_display_by_pairingCode :: "state \<Rightarrow> string \<Rightarrow> result" where
  "get_display_by_pairingCode st code =
     (case findOne_pairingCode (Displays st) code of
        None \<Rightarrow> Inl (HttpError 404 ''Invalid pairing code'')
      | Some display \<Rightarrow>
          Inr (st, 200,
               DisplayBody (transformDisplay (Some (populate_currentMenu (Menus st) display)))))"

text \<open>\<^verbatim>\<open>GET /:displayId\<close>\<close>

definition get_display :: "state \<Rightarrow> string \<Rightarrow> result" where
  "get_display st displayId =
     (if castObjectId displayId = None then Inl (HttpError 500 ''Failed to fetch display'')
      else
        (case findById_display (Displays st) displayId of
           None \<Rightarrow> Inl (HttpError 404 ''Display not found'')
         | Some display \<Rightarrow>
             Inr (st, 200,
                  DisplayBody
                    (transformDisplay (Some (populate_currentMenu (Menus st) display))))))"

text \<open>\<^verbatim>\<open>PATCH /:displayId/assign-menu\<close>. The menu is looked up only when
  \<^verbatim>\<open>menuId\<close> is truthy, and \<^verbatim>\<open>menuId || null\<close> is assigned.\<close>

definition verify_menu_exists :: "menu list \<Rightarrow> string option \<Rightarrow> http_error option" where
  "verify_menu_exists ms menuId =
     (case menuId of
        None \<Rightarrow> None
      | Some m \<Rightarrow>
          if m = [] then None
          else if castObjectId m = None then Some (HttpError 500 ''Failed to assign menu'')
          else if findById_menu ms m = None then Some (HttpError 404 ''Menu not found'')
          else None)"

definition menuId_or_null :: "string option \<Rightarrow> menu_ref nullable" where
  "menuId_or_null menuId =
     (case menuId of None \<Rightarrow> Null | Some m \<Rightarrow> if m = [] then Null else cast_ref m)"

definition assign_menu :: "state \<Rightarrow> env \<Rightarrow> string \<Rightarrow> string option \<Rightarrow> result" where
  "assign_menu st e displayId menuId =
     (if castObjectId displayId = None then Inl (HttpError 500 ''Failed to assign menu'')
      else
        (case findById_display (Displays st) displayId of
           None \<Rightarrow> Inl (HttpError 404 ''Display not found'')
         | Some display \<Rightarrow>
             (case verify_menu_exists (Menus st) menuId of
                Some err \<Rightarrow> Inl err
              | None \<Rightarrow>
                  (case Display_save (Displays st) (e_now e) (e_random e) False
                          (display\<lparr>currentMenu := menuId_or_null menuId\<rparr>) of
                     Inl err \<Rightarrow> Inl (HttpError 500 ''Failed to assign menu'')
                   | Inr (ds, saved) \<Rightarrow>
                       (let st1 = emit (''display-'' @ displayId) ''menu-assigned''
                                    (MenuAssigned displayId menuId) (st\<lparr>Displays := ds\<rparr>);
                            populatedDisplay =
                              map_option (populate_currentMenu (Menus st1))
                                (findById_display (Displays st1) displayId)
                        in Inr (st1, 200, DisplayBody (transformDisplay populatedDisplay)))))))"

text \<open>\<^verbatim>\<open>POST /:displayId/upload-media\<close>\<close>

definition upload_media :: "state \<Rightarrow> env \<Rightarrow> string \<Rightarrow> upload_file option \<Rightarrow> result" where
  "upload_media st e displayId file =
     (case file of
        None \<Rightarrow> Inl (HttpError 400 ''No file uploaded'')
      | Some f \<Rightarrow>
          if castObjectId displayId = None then Inl (HttpError 500 ''Failed to upload media'')
          else
            (case findById_display (Displays st) displayId of
               None \<Rightarrow> Inl (HttpError 404 ''Display not found'')
             | Some display \<Rightarrow>
                 (let mt = (if startsWith (mimetype f) ''image/'' then Image else Video);
                      url = ''/uploads/'' @ filename f
                  in case Display_save (Displays st) (e_now e) (e_random e) False
                            (display\<lparr>mediaUrl := Val url, mediaType := Some mt\<rparr>) of
                       Inl err \<Rightarrow> Inl (HttpError 500 ''Failed to upload media'')
                     | Inr (ds, saved) \<Rightarrow>
                         Inr (emit (''display-'' @ displayId) ''media-uploaded''
                                (MediaUploaded displayId url mt) (st\<lparr>Displays := ds\<rparr>),
                              200, DisplayBody (transformDisplay (Some saved))))))"

text \<open>\<^verbatim>\<open>DELETE /:displayId/media\<close>\<close>

definition remove_media :: "state \<Rightarrow> env \<Rightarrow> string \<Rightarrow> result" where
  "remove_media st e displayId =
     (if castObjectId displayId = None then Inl (HttpError 500 ''Failed to remove media'')
      else
        (case findById_display (Displays st) displayId of
           None \<Rightarrow> Inl (HttpError 404 ''Display not found'')
         | Some display \<Rightarrow>
             (case Display_save (Displays st) (e_now e) (e_random e) False
                     (display\<lparr>mediaUrl := Null, mediaType := None\<rparr>) of
                Inl err \<Rightarrow> Inl (HttpError 500 ''Failed to remove media'')
              | Inr (ds, saved) \<Rightarrow>
                  Inr (emit (''display-'' @ displayId) ''media-removed''
                         (MediaRemoved displayId) (st\<lparr>Displays := ds\<rparr>),
                       200, DisplayBody (transformDisplay (Some saved))))))"

text \<open>\<^verbatim>\<open>PATCH /:displayId/regenerate-pairing-code\<close>: the handler draws the first random
  value; the pre-save hook draws the second one when the first code came out empty.
  The handler does not compare the code it drew with the one the display has.\<close>

definition regenerate_pairing_code :: "state \<Rightarrow> env \<Rightarrow> string \<Rightarrow> result" where
  "regenerate_pairing_code st e displayId =
     (if castObjectId displayId = None then
        Inl (HttpError 500 ''Failed to regenerate pairing code'')
      else
        (case findById_display (Displays st) displayId of
           None \<Rightarrow> Inl (HttpError 404 ''Display not found'')
         | Some display \<Rightarrow>
             (case Display_save (Displays st) (e_now e) (e_random2 e) False
                     (display\<lparr>pairingCode := Some (generateCode (e_random e))\<rparr>) of
                Inl err \<Rightarrow> Inl (HttpError 500 ''Failed to regenerate pairing code'')
              | Inr (ds, saved) \<Rightarrow>
                  Inr (st\<lparr>Displays := ds\<rparr>, 200,
                       PairingCodeBody ''New pairing code generated''
                         (case pairingCode saved of None \<Rightarrow> [] | Some c \<Rightarrow> c)))))"

text \<open>\<^verbatim>\<open>DELETE /:displayId\<close>. The restaurant's list is filtered with
  \<^verbatim>\<open>id.toString() !== displayId\<close>: the text of each stored id against the string of
  the request.\<close>

definition delete_display :: "state \<Rightarrow> env \<Rightarrow> string \<Rightarrow> result" where
  "delete_display st e displayId =
     (if castObjectId displayId = None then Inl (HttpError 500 ''Failed to delete display'')
      else
        (case findById_display (Displays st) displayId of
           None \<Rightarrow> Inl (HttpError 404 ''Display not found'')
         | Some display \<Rightarrow>
             (let rs = (case findOne_by_display (Restaurants st) displayId of
                          None \<Rightarrow> Restaurants st
                        | Some restaurant \<Rightarrow>
                            Restaurant_save (Restaurants st) (e_now e)
                              (restaurant\<lparr>r_displays :=
                                 filter (\<lambda>i. i \<noteq> displayId) (r_displays restaurant)\<rparr>));
                  st1 = st\<lparr>Restaurants := rs,
                           Displays := findByIdAndDelete_display (Displays st) displayId\<rparr>
              in Inr (emit (''display-'' @ displayId) ''display-deleted''
                        (DisplayDeleted displayId) st1,
                      200, MessageBody ''Display deleted successfully''))))"

section \<open>routes/menus.js\<close>

text \<open>\<^verbatim>\<open>PUT /:menuId\<close>. The setter of \<^verbatim>\<open>menu.items\<close> casts each element; an element
  that does not cast makes \<^verbatim>\<open>save()\<close> throw.\<close>

definition cast_items :: "string list \<Rightarrow> oid list option" where
  "cast_items xs = those (map castObjectId xs)"

definition update_menu :: "state \<Rightarrow> env \<Rightarrow> string \<Rightarrow> menu_body \<Rightarrow> result" where
  "update_menu st e menuId b =
     (if castObjectId menuId = None then Inl (HttpError 500 ''Failed to update menu'')
      else
        (case findById_menu (Menus st) menuId of
           None \<Rightarrow> Inl (HttpError 404 ''Menu not found'')
         | Some menu \<Rightarrow>
             (let m1 = menu\<lparr>m_name :=
                          (case mb_name b of None \<Rightarrow> m_name menu
                           | Some n \<Rightarrow> if n = [] then m_name menu else trim n),
                        m_description :=
                          (case mb_description b of None \<Rightarrow> m_description menu
                           | Some d \<Rightarrow> Some (trim d))\<rparr>
              in case (case mb_items b of None \<Rightarrow> Some m1
                       | Some xs \<Rightarrow> map_option (\<lambda>ys. m1\<lparr>m_items := ys\<rparr>) (cast_items xs)) of
                   None \<Rightarrow> Inl (HttpError 500 ''Failed to update menu'')
                 | Some m2 \<Rightarrow>
                     (case Menu_save (Menus st) (e_now e) m2 of
                        Inl err \<Rightarrow> Inl (HttpError 500 ''Failed to update menu'')
                      | Inr (ms, saved) \<Rightarrow>
                          Inr (emit (''menu-'' @ menuId) ''menu-updated'' (MenuPayload saved)
                                 (st\<lparr>Menus := ms\<rparr>),
                               200, MenuBody saved)))))"

text \<open>\<^verbatim>\<open>DELETE /:menuId\<close>. The restaurant's list is filtered with
  \<^verbatim>\<open>id.toString() !== menuId\<close>: the text of each stored id against the string of the
  request.\<close>

definition delete_menu :: "state \<Rightarrow> env \<Rightarrow> string \<Rightarrow> result" where
  "delete_menu st e menuId =
     (if castObjectId menuId = None then Inl (HttpError 500 ''Failed to delete menu'')
      else
        (case findById_menu (Menus st) menuId of
           None \<Rightarrow> Inl (HttpError 404 ''Menu not found'')
         | Some menu \<Rightarrow>
             (let rs = (case findOne_by_menu (Restaurants st) menuId of
                          None \<Rightarrow> Restaurants st
                        | Some restaurant \<Rightarrow>
                            Restaurant_save (Restaurants st) (e_now e)
                              (restaurant\<lparr>r_menus :=
                                 filter (\<lambda>i. i \<noteq> menuId) (r_menus restaurant)\<rparr>));
                  st1 = st\<lparr>Restaurants := rs,
                           Menus := findByIdAndDelete_menu (Menus st) menuId\<rparr>
              in Inr (emit (''menu-'' @ menuId) ''menu-deleted'' (MenuDeleted menuId) st1,
                      200, MessageBody ''Menu deleted successfully''))))"

section \<open>routes/items.js\<close>

text \<open>A template string prints \<^verbatim>\<open>undefined\<close> for an undefined value.\<close>

definition template_id :: "oid option \<Rightarrow> string" where
  "template_id v = (case v of None \<Rightarrow> ''undefined'' | Some i \<Rightarrow> i)"

text \<open>\<^verbatim>\<open>PATCH /:itemId/toggle\<close>\<close>

definition toggle_item :: "state \<Rightarrow> env \<Rightarrow> oid \<Rightarrow> string \<Rightarrow> result" where
  "toggle_item st e uid itemId =
     (if castObjectId itemId = None then
        Inl (HttpError 500 ''Failed to toggle item availability'')
      else
        (case findById_item (Items st) itemId of
           None \<Rightarrow> Inl (HttpError 404 ''Item not found'')
         | Some it \<Rightarrow>
             (case findById_restaurant_opt (Restaurants st) (item_restaurant it) of
                None \<Rightarrow> Inl (HttpError 403 ''Access denied'')
              | Some restaurant \<Rightarrow>
                  if owner restaurant \<noteq> uid then Inl (HttpError 403 ''Access denied'')
                  else
                    (case Item_save (Items st) (e_now e)
                            (it\<lparr>isAvailable := \<not> isAvailable it\<rparr>) of
                       (xs, saved) \<Rightarrow>
                         Inr (emit (''restaurant-'' @ template_id (item_restaurant saved))
                                ''item-availability-changed''
                                (ItemAvailabilityChanged (i_id saved) (isAvailable saved))
                                (st\<lparr>Items := xs\<rparr>),
                              200, ItemBody saved)))))"

section \<open>routes/restaurants.js\<close>

text \<open>\<^verbatim>\<open>GET /:restaurantId\<close>: the restaurant with its owner, menus, items and
  displays populated, sent as the documents are. Populating an array keeps the
  documents found, in the array's order; an owner that is not found populates to
  \<^verbatim>\<open>null\<close>, and reading its \<^verbatim>\<open>_id\<close> throws.\<close>

definition get_restaurant :: "state \<Rightarrow> oid \<Rightarrow> string \<Rightarrow> result" where
  "get_restaurant st uid restaurantId =
     (if castObjectId restaurantId = None then
        Inl (HttpError 500 ''Failed to fetch restaurant'')
      else
        (case findById_restaurant (Restaurants st) restaurantId of
           None \<Rightarrow> Inl (HttpError 403 ''Access denied'')
         | Some restaurant \<Rightarrow>
             (case user_by_id (Users st) (owner restaurant) of
                None \<Rightarrow> Inl (HttpError 500 ''Failed to fetch restaurant'')
              | Some u \<Rightarrow>
                  if u_id u \<noteq> uid then Inl (HttpError 403 ''Access denied'')
                  else
                    Inr (st, 200,
                         RestaurantBody
                           \<lparr>pr_id = r_id restaurant, pr_name = r_name restaurant, pr_owner = u,
                            pr_menus = List.map_filter (menu_by_id (Menus st)) (r_menus restaurant),
                            pr_items = List.map_filter (item_by_id (Items st)) (r_items restaurant),
                            pr_displays =
                              List.map_filter (display_by_id (Displays st))
                                (r_displays restaurant),
                            pr_schedules = r_schedules restaurant,
                            pr_createdAt = r_createdAt restaurant,
                            pr_updatedAt = r_updatedAt restaurant\<rparr>))))"

section \<open>Routers and the application\<close>

definition with_auth :: "(string \<Rightarrow> oid option) \<Rightarrow> string option \<Rightarrow> (oid \<Rightarrow> result) \<Rightarrow> result" where
  "with_auth verify bearer k =
     (case authenticateToken verify bearer of Inl err \<Rightarrow> Inl err | Inr uid \<Rightarrow> k uid)"

definition with_validation :: "bool \<Rightarrow> result \<Rightarrow> result" where
  "with_validation valid k = (case validateRequest valid of Some err \<Rightarrow> Inl err | None \<Rightarrow> k)"

text \<open>The value of \<^verbatim>\<open>:pairingCode\<close> in a request that Express has matched to
  \<^verbatim>\<open>GET /pair/:pairingCode\<close>: a parameter matches one or more characters, so it is
  never the empty string. It is given by its first character and the rest.\<close>

datatype path_param = Param char string

definition param_string :: "path_param \<Rightarrow> string" where
  "param_string p = (case p of Param c cs \<Rightarrow> c # cs)"

text \<open>The requests the router of routes/displays.js routes, one per route, in the
  order of the file. A value stands for a request that Express has matched to the
  route. The id parameters are kept as the strings they are: the handlers cast
  them.\<close>

datatype display_request =
    CreateDisplay string display_body
  | ListDisplays string
  | UpdateDisplay string display_body
  | PairDisplay "string option"
  | GetDisplayByPairingCode path_param
  | GetDisplay string
  | AssignMenu string "string option"
  | UploadMedia string "upload_file option"
  | RemoveMedia string
  | RegeneratePairingCode string
  | DeleteDisplay string

text \<open>Each route with the middleware its declaration lists: the two pairing routes
  list none.\<close>

definition displayRoutes ::
  "(string \<Rightarrow> oid option) \<Rightarrow> state \<Rightarrow> env \<Rightarrow> string option \<Rightarrow> display_request \<Rightarrow> result" where
  "displayRoutes verify st e bearer req =
     (case req of
        CreateDisplay restaurantId b \<Rightarrow>
          with_auth verify bearer (\<lambda>uid.
            with_validation (displayValidation b)
              (create_display st e uid restaurantId (displaySanitize b)))
      | ListDisplays restaurantId \<Rightarrow>
          with_auth verify bearer (\<lambda>uid. list_displays st uid restaurantId)
      | UpdateDisplay displayId b \<Rightarrow>
          with_auth verify bearer (\<lambda>uid.
            with_validation (displayValidation b)
              (update_display st e displayId (displaySanitize b)))
      | PairDisplay code \<Rightarrow> pair_display st code
      | GetDisplayByPairingCode code \<Rightarrow> get_display_by_pairingCode st (param_string code)
      | GetDisplay displayId \<Rightarrow> with_auth verify bearer (\<lambda>uid. get_display st displayId)
      | AssignMenu displayId menuId \<Rightarrow>
          with_auth verify bearer (\<lambda>uid. assign_menu st e displayId menuId)
      | UploadMedia displayId file \<Rightarrow>
          with_auth verify bearer (\<lambda>uid.
            case upload_single_media file of
              Inl err \<Rightarrow> Inl err
            | Inr f \<Rightarrow> upload_media st e displayId f)
      | RemoveMedia displayId \<Rightarrow> with_auth verify bearer (\<lambda>uid. remove_media st e displayId)
      | RegeneratePairingCode displayId \<Rightarrow>
          with_auth verify bearer (\<lambda>uid. regenerate_pairing_code st e displayId)
      | DeleteDisplay displayId \<Rightarrow>
          with_auth verify bearer (\<lambda>uid. delete_display st e displayId))"

text \<open>The request that \<^verbatim>\<open>GET /displays/pair/\<close> followed by \<open>code\<close> is, for a
  \<open>code\<close> of characters that a URL path holds as they are. The router tries its GET
  routes in the order of the file, and a route matches a path with or without one
  \<open>/\<close> at its end. With a code of one or more characters, none of them \<open>/\<close>,
  \<^verbatim>\<open>/pair/:pairingCode\<close> matches. With no code the path is \<^verbatim>\<open>/pair/\<close>:
  \<^verbatim>\<open>/pair/:pairingCode\<close> does not match it, and the next route, \<^verbatim>\<open>/:displayId\<close>,
  matches it with \<^verbatim>\<open>displayId\<close> being \<open>pair\<close>. A path with a further \<open>/\<close>
  inside matches no route of the router (\<open>None\<close>).\<close>

definition GET_pair_path :: "string \<Rightarrow> display_request option" where
  "GET_pair_path code =
     (if code = [] then Some (GetDisplay ''pair'')
      else
        (case (if last code = CHR ''/'' then butlast code else code) of
           [] \<Rightarrow> None
         | c # cs \<Rightarrow>
             if CHR ''/'' \<in> set (c # cs) then None
             else Some (GetDisplayByPairingCode (Param c cs))))"

datatype menu_request = UpdateMenu string menu_body | DeleteMenu string

definition menuRoutes ::
  "(string \<Rightarrow> oid option) \<Rightarrow> state \<Rightarrow> env \<Rightarrow> string option \<Rightarrow> menu_request \<Rightarrow> result" where
  "menuRoutes verify st e bearer req =
     (case req of
        UpdateMenu menuId b \<Rightarrow>
          with_auth verify bearer (\<lambda>uid.
            with_validation (menuValidation b) (update_menu st e menuId (menuSanitize b)))
      | DeleteMenu menuId \<Rightarrow> with_auth verify bearer (\<lambda>uid. delete_menu st e menuId))"

text \<open>\<^verbatim>\<open>PATCH /items/:itemId/toggle\<close> and \<^verbatim>\<open>GET /restaurants/:restaurantId\<close>
  with their middleware.\<close>

definition items_toggle ::
  "(string \<Rightarrow> oid option) \<Rightarrow> state \<Rightarrow> env \<Rightarrow> string option \<Rightarrow> string \<Rightarrow> result" where
  "items_toggle verify st e bearer itemId =
     with_auth verify bearer (\<lambda>uid. toggle_item st e uid itemId)"

definition restaurants_get ::
  "(string \<Rightarrow> oid option) \<Rightarrow> state \<Rightarrow> string option \<Rightarrow> string \<Rightarrow> result" where
  "restaurants_get verify st bearer restaurantId =
     with_auth verify bearer (\<lambda>uid. get_restaurant st uid restaurantId)"

text \<open>index.js mounts the router with \<^verbatim>\<open>app.use('/displays', displayRoutes)\<close>: no
  middleware stands before it.\<close>

definition index_displays ::
  "(string \<Rightarrow> oid option) \<Rightarrow> state \<Rightarrow> env \<Rightarrow> string option \<Rightarrow> display_request \<Rightarrow> result" where
  "index_displays verify st e bearer req = displayRoutes verify st e bearer req"

text \<open>A second server file of the repository (its name is not known) mounts the same
  router with \<^verbatim>\<open>app.use('/displays', authenticateToken, displayRoutes)\<close>.\<close>

definition guarded_displays ::
  "(string \<Rightarrow> oid option) \<Rightarrow> state \<Rightarrow> env \<Rightarrow> string option \<Rightarrow> display_request \<Rightarrow> result" where
  "guarded_displays verify st e bearer req =
     with_auth verify bearer (\<lambda>uid. displayRoutes verify st e bearer req)"

section \<open>Notions the statements use\<close>

text \<open>What the indexes of the display collection guarantee of a stored collection:
  the \<^verbatim>\<open>_id\<close> index, and the unique index on \<^verbatim>\<open>pairingCode\<close>.\<close>

definition indexes_ok :: "display list \<Rightarrow> bool" where
  "indexes_ok ds =
     (distinct (map d_id ds) \<and>
      (\<forall>a\<in>set ds. \<forall>b\<in>set ds.
         pairingCode a \<noteq> None \<and> pairingCode a = pairingCode b \<longrightarrow> d_id a = d_id b))"

definition status_of :: "result \<Rightarrow> nat" where
  "status_of res = (case res of Inl (HttpError s msg) \<Rightarrow> s | Inr (st, s, bd) \<Rightarrow> s)"

text \<open>The displays that the body of \<^verbatim>\<open>GET /restaurants/:restaurantId\<close> carries, as
  documents.\<close>

definition document_displays_of :: "body \<Rightarrow> display list" where
  "document_displays_of bd = (case bd of RestaurantBody r \<Rightarrow> pr_displays r | _ \<Rightarrow> [])"

text \<open>The state a request leaves: the new state, or the old one after an error
  response.\<close>

definition state_after :: "state \<Rightarrow> result \<Rightarrow> state" where
  "state_after st res = (case res of Inl err \<Rightarrow> st | Inr (st', s, bd) \<Rightarrow> st')"

section \<open>A concrete store\<close>

text \<open>The store the seed script builds (one owner, the restaurant, the lunch menu, one
  item, the kitchen display with pairing code \<open>DEMO123\<close>), a second registered user,
  and a display client in the rooms of the kitchen display and of its pairing code.\<close>

definition demo_owner :: oid where "demo_owner = ''64b7f0a10000000000000001''"
definition demo_other :: oid where "demo_other = ''64b7f0a10000000000000002''"
definition demo_restaurant_id :: oid where "demo_restaurant_id = ''64b7f0a20000000000000001''"
definition demo_menu_id :: oid where "demo_menu_id = ''64b7f0a30000000000000001''"
definition demo_item_id :: oid where "demo_item_id = ''64b7f0a40000000000000001''"
definition demo_display_id :: oid where "demo_display_id = ''64b7f0a50000000000000001''"

definition demo_menu :: menu where
  "demo_menu =
     \<lparr>m_id = demo_menu_id, m_name = ''Lunch Menu'',
      m_description = Some ''Our delicious lunch options'', m_items = [demo_item_id],
      m_createdAt = 1000, m_updatedAt = 1000\<rparr>"

definition demo_item :: item where
  "demo_item =
     \<lparr>i_id = demo_item_id, i_name = ''Classic Burger'', i_description = None,
      price = 1299 / 100, imageUrl = None, category = ''Main Course'', isAvailable = True,
      i_createdAt = 1000, i_updatedAt = 1000\<rparr>"

definition demo_display :: display where
  "demo_display =
     \<lparr>d_id = demo_display_id, d_name = ''Kitchen Display'', pairingCode = Some ''DEMO123'',
      currentMenu = Val (Ref demo_menu_id), mediaUrl = Absent, mediaType = None,
      createdAt = 1000, updatedAt = 1000\<rparr>"

definition demo_restaurant :: restaurant where
  "demo_restaurant =
     \<lparr>r_id = demo_restaurant_id, r_name = ''Demo Restaurant'', owner = demo_owner,
      r_menus = [demo_menu_id], r_items = [demo_item_id], r_displays = [demo_display_id],
      r_schedules = [], r_createdAt = 1000, r_updatedAt = 1000\<rparr>"

definition demo_state :: state where
  "demo_state =
     \<lparr>Users = [\<lparr>u_id = demo_owner, email = ''admin@yardsign.com''\<rparr>,
               \<lparr>u_id = demo_other, email = ''other@example.com''\<rparr>],
      Restaurants = [demo_restaurant], Menus = [demo_menu], Items = [demo_item],
      Displays = [demo_display],
      joined = [(''socket-1'', ''display-'' @ demo_display_id),
                (''socket-1'', ''pairing-DEMO123'')],
      emitted = [], delivered = []\<rparr>"

definition demo_verify :: "string \<Rightarrow> oid option" where
  "demo_verify token =
     (if token = ''owner-token'' then Some demo_owner
      else if token = ''other-token'' then Some demo_other
      else None)"

definition demo_env :: env where
  "demo_env =
     \<lparr>e_now = 2000, e_newId = ''64b7f0a50000000000000002'',
      e_random = ''0.4fzyo82mvyr'', e_random2 = ''0.k3x9q0ab71c''\<rparr>"

text \<open>The store after the kitchen display's code was regenerated, and after the owner
  created a second display, both in \<open>demo_env\<close>.\<close>

definition demo_regenerated :: state where
  "demo_regenerated =
     demo_state\<lparr>Displays := [demo_display\<lparr>pairingCode := Some ''4FZYO8'', updatedAt := 2000\<rparr>]\<rparr>"

definition demo_new_display :: display where
  "demo_new_display =
     \<lparr>d_id = ''64b7f0a50000000000000002'', d_name = ''Bar Display'',
      pairingCode = Some ''4FZYO8'', currentMenu = Absent, mediaUrl = Absent,
      mediaType = None, createdAt = 2000, updatedAt = 2000\<rparr>"


text \<open>The store after the lunch menu was deleted in \<open>demo_env\<close>.\<close>

definition demo_menu_deleted :: state where
  "demo_menu_deleted =
     demo_state
       \<lparr>Restaurants := [demo_restaurant\<lparr>r_menus := [], r_updatedAt := 2000\<rparr>],
        Menus := [],
        emitted := [(''menu-64b7f0a30000000000000001'', ''menu-deleted'',
                     MenuDeleted demo_menu_id)]\<rparr>"

text \<open>What \<^verbatim>\<open>GET /restaurants/:restaurantId\<close> sends the owner of the demo restaurant.\<close>

definition demo_populated_restaurant :: populated_restaurant where
  "demo_populated_restaurant =
     \<lparr>pr_id = demo_restaurant_id, pr_name = ''Demo Restaurant'',
      pr_owner = \<lparr>u_id = demo_owner, email = ''admin@yardsign.com''\<rparr>,
      pr_menus = [demo_menu], pr_items = [demo_item], pr_displays = [demo_display],
      pr_schedules = [], pr_createdAt = 1000, pr_updatedAt = 1000\<rparr>"

text \<open>What \<^verbatim>\<open>GET /displays/pair/DEMO123\<close> sends: the kitchen display, its menu
  flattened.\<close>

definition demo_view :: transformed_display where
  "demo_view =
     \<lparr>t_id = demo_display_id, t_name = ''Kitchen Display'', t_pairingCode = Some ''DEMO123'',
      t_currentMenu =
        Some (FlatMenu \<lparr>fm_id = demo_menu_id, fm_name = Some ''Lunch Menu'',
                fm_description = Some ''Our delicious lunch options'',
                fm_items = [demo_item_id]\<rparr>),
      t_mediaUrl = Absent, t_mediaType = None, t_createdAt = 1000, t_updatedAt = 1000\<rparr>"

text \<open>What \<^verbatim>\<open>transformDisplay\<close> makes of the kitchen display as it is stored, its
  \<^verbatim>\<open>currentMenu\<close> being the ObjectId of the lunch menu, and what
  \<^verbatim>\<open>PUT /displays/:displayId\<close> sends when it renames the display in \<open>demo_env\<close>.\<close>

definition demo_stored_view :: transformed_display where
  "demo_stored_view =
     \<lparr>t_id = demo_display_id, t_name = ''Kitchen Display'', t_pairingCode = Some ''DEMO123'',
      t_currentMenu =
        Some (FlatMenu \<lparr>fm_id = demo_menu_id, fm_name = None, fm_description = None,
                fm_items = []\<rparr>),
      t_mediaUrl = Absent, t_mediaType = None, t_createdAt = 1000, t_updatedAt = 1000\<rparr>"

definition demo_renamed_view :: transformed_display where
  "demo_renamed_view = demo_stored_view\<lparr>t_name := ''Counter Display'', t_updatedAt := 2000\<rparr>"


text \<open>The display the owner creates, and the store after, when \<^verbatim>\<open>Math.random()\<close>
  returns 0, whose text in base 36 is \<open>0\<close>.\<close>

definition demo_codeless_display :: display where
  "demo_codeless_display = demo_new_display\<lparr>pairingCode := Some []\<rparr>"

definition demo_codeless_view :: transformed_display where
  "demo_codeless_view =
     \<lparr>t_id = ''64b7f0a50000000000000002'', t_name = ''Bar Display'', t_pairingCode = Some [],
      t_currentMenu = None, t_mediaUrl = Absent, t_mediaType = None,
      t_createdAt = 2000, t_updatedAt = 2000\<rparr>"

definition demo_created_codeless :: state where
  "demo_created_codeless =
     demo_state
       \<lparr>Restaurants :=
          [demo_restaurant\<lparr>r_displays := [demo_display_id, ''64b7f0a50000000000000002''],
                           r_updatedAt := 2000\<rparr>],
        Displays := [demo_display, demo_codeless_display],
        emitted :=
          [(''restaurant-64b7f0a20000000000000001'', ''display-created'',
            DisplayPayload (Some demo_codeless_view))]\<rparr>"

section \<open>Properties\<close>

subsection \<open>Unfolding rules for the concrete store\<close>

lemmas demo_ids = demo_owner_def demo_other_def demo_restaurant_id_def demo_menu_id_def
  demo_item_id_def demo_display_id_def

lemmas gen_defs = generateCode_def toUpperCase_def toUpperCase_char_def substring_def
  lowerLetters_def upperLetters_def digitChars_def

lemmas cast_defs = castObjectId_def hex24_def toLowerCase_def toLowerCase_char_def
  lowerLetters_def upperLetters_def

lemmas demo_defs = demo_state_def demo_display_def demo_restaurant_def demo_menu_def
  demo_item_def demo_env_def demo_verify_def demo_ids

lemmas find_defs = findById_display_def findById_menu_def findById_restaurant_def
  findById_item_def display_by_id_def menu_by_id_def restaurant_by_id_def item_by_id_def
  user_by_id_def findOne_by_menu_def findOne_by_display_def findByIdAndDelete_display_def
  findByIdAndDelete_menu_def

lemmas save_defs = Display_save_def Let_def timestamps_pre_save_def displaySchema_pre_save_def
  falsy_def duplicate_pairingCode_def replace_display_def display_by_id_def

lemmas route_defs = index_displays_def displayRoutes_def with_auth_def with_validation_def
  authenticateToken_def validateRequest_def displayValidation_def displaySanitize_def

lemmas menu_route_defs = menuRoutes_def with_auth_def with_validation_def
  authenticateToken_def validateRequest_def menuValidation_def menuSanitize_def

text \<open>The ids of the concrete store cast to themselves; the id of the lunch menu written
  in upper case casts to the id of the lunch menu; \<open>pair\<close> does not cast.\<close>

lemma cast_demo_ids:
  "castObjectId ''64b7f0a20000000000000001'' = Some ''64b7f0a20000000000000001''"
  "castObjectId ''64b7f0a30000000000000001'' = Some ''64b7f0a30000000000000001''"
  "castObjectId ''64b7f0a40000000000000001'' = Some ''64b7f0a40000000000000001''"
  "castObjectId ''64b7f0a50000000000000001'' = Some ''64b7f0a50000000000000001''"
  "castObjectId ''64B7F0A30000000000000001'' = Some ''64b7f0a30000000000000001''"
  "castObjectId ''pair'' = None"
  by (simp_all add: cast_defs)

subsection \<open>Queries, hooks and save\<close>

lemma find_unique:
  assumes "x \<in> set xs" "P x" "\<forall>y\<in>set xs. P y \<longrightarrow> y = x"
  shows "find P xs = Some x"
proof (cases "find P xs")
  case None
  then have "\<not> P x" using assms(1) by (simp add: find_None_iff)
  with assms(2) show ?thesis by simp
next
  case (Some y)
  then have "y \<in> set xs" "P y" by (auto simp: find_Some_iff)
  with assms(3) have "y = x" by blast
  with Some show ?thesis by simp
qed

lemma find_map_replace:
  assumes "x \<in> set xs" "key x = k" "key d = k"
  shows "find (\<lambda>y. key y = k) (map (\<lambda>y. if key y = k then d else y) xs) = Some d"
  using assms by (induction xs) auto

lemma display_by_idD: "display_by_id ds i = Some d \<Longrightarrow> d \<in> set ds \<and> d_id d = i"
  unfolding display_by_id_def by (auto simp: find_Some_iff)

lemma findById_displayD:
  "findById_display ds i = Some d \<Longrightarrow> d \<in> set ds \<and> castObjectId i = Some (d_id d)"
  unfolding findById_display_def by (auto split: option.splits dest: display_by_idD)


lemma findOne_pairingCodeD:
  "findOne_pairingCode ds c = Some d \<Longrightarrow> d \<in> set ds \<and> pairingCode d = Some c"
  unfolding findOne_pairingCode_def by (auto simp: find_Some_iff)

lemma set_replace_display:
  "x \<in> set (replace_display doc ds) \<Longrightarrow> x = doc \<or> (x \<in> set ds \<and> d_id x \<noteq> d_id doc)"
  unfolding replace_display_def by auto

lemma replace_display_mem:
  "d \<in> set ds \<Longrightarrow> d_id d = d_id doc \<Longrightarrow> doc \<in> set (replace_display doc ds)"
  unfolding replace_display_def by force

lemma map_d_id_replace_display: "map d_id (replace_display doc ds) = map d_id ds"
  unfolding replace_display_def by (induction ds) auto

lemma duplicate_pairingCode_iff:
  "duplicate_pairingCode ds doc \<longleftrightarrow>
     (\<exists>c e. pairingCode doc = Some c \<and> e \<in> set ds \<and> d_id e \<noteq> d_id doc \<and> pairingCode e = Some c)"
  unfolding duplicate_pairingCode_def by (auto simp: list_ex_iff split: option.splits)

lemma Display_save_update:
  assumes "Display_save ds now r False doc = Inr (ds', saved)"
  shows "ds' = replace_display saved ds" "d_id saved = d_id doc"
    "\<not> duplicate_pairingCode ds saved" "d_name saved = d_name doc"
    "currentMenu saved = currentMenu doc" "mediaUrl saved = mediaUrl doc"
    "mediaType saved = mediaType doc" "createdAt saved = createdAt doc"
    "pairingCode saved = (if falsy (pairingCode doc) then Some (generateCode r) else pairingCode doc)"
    "updatedAt saved = updatedAt doc \<or> updatedAt saved = now"
  using assms
  unfolding Display_save_def Let_def timestamps_pre_save_def displaySchema_pre_save_def
  by (auto split: if_splits)

lemma Display_save_update_doc:
  assumes "Display_save ds now r False doc = Inr (ds', saved)"
  shows "saved = doc\<lparr>pairingCode :=
                     (if falsy (pairingCode doc) then Some (generateCode r)
                      else pairingCode doc),
                   updatedAt := updatedAt saved\<rparr> \<and>
         (updatedAt saved = updatedAt doc \<or> updatedAt saved = now)"
  using assms
  unfolding Display_save_def Let_def timestamps_pre_save_def displaySchema_pre_save_def
  by (auto split: if_splits)

lemma Display_save_update_mem:
  assumes "Display_save ds now r False doc = Inr (ds', saved)"
    and "findById_display ds i = Some d0" "d_id doc = d_id d0"
  shows "saved \<in> set ds'"
proof -
  note u = Display_save_update[OF assms(1)]
  from findById_displayD[OF assms(2)] have "d0 \<in> set ds" by auto
  with u(2) assms(3) have "saved \<in> set (replace_display saved ds)"
    by (intro replace_display_mem[of d0]) auto
  with u(1) show ?thesis by simp
qed

lemma Display_save_insert:
  assumes "Display_save ds now r True doc = Inr (ds', saved)"
  shows "ds' = ds @ [saved]" "d_id saved = d_id doc"
    "\<not> duplicate_pairingCode ds saved" "d_id saved \<notin> d_id ` set ds"
    "d_name saved = d_name doc" "currentMenu saved = currentMenu doc"
    "mediaUrl saved = mediaUrl doc" "mediaType saved = mediaType doc"
    "createdAt saved = now" "updatedAt saved = now"
    "pairingCode saved = (if falsy (pairingCode doc) then Some (generateCode r) else pairingCode doc)"
  using assms
  unfolding Display_save_def Let_def timestamps_pre_save_def displaySchema_pre_save_def
  by (auto split: if_splits simp: list_ex_iff)

lemma Display_save_pairingCode:
  assumes "Display_save ds now r isNew doc = Inr (ds', saved)"
  shows "\<exists>c. pairingCode saved = Some c"
  using assms
  unfolding Display_save_def Let_def timestamps_pre_save_def displaySchema_pre_save_def falsy_def
  by (auto split: if_splits option.splits)


lemma findOne_pairingCode_inserted:
  assumes "\<not> duplicate_pairingCode ds saved" "d_id saved \<notin> d_id ` set ds"
    "pairingCode saved = Some c"
  shows "findOne_pairingCode (ds @ [saved]) c = Some saved"
  unfolding findOne_pairingCode_def
proof (rule find_unique)
  show "saved \<in> set (ds @ [saved])" by simp
  show "pairingCode saved = Some c" by (rule assms(3))
  show "\<forall>y\<in>set (ds @ [saved]). pairingCode y = Some c \<longrightarrow> y = saved"
  proof (intro ballI impI)
    fix y assume y: "y \<in> set (ds @ [saved])" and c: "pairingCode y = Some c"
    show "y = saved"
    proof (rule ccontr)
      assume "y \<noteq> saved"
      with y have m: "y \<in> set ds" by simp
      then have "d_id y \<in> d_id ` set ds" by (rule imageI)
      with assms(2) have "d_id y \<noteq> d_id saved" by metis
      with m c assms(3) have "duplicate_pairingCode ds saved"
        unfolding duplicate_pairingCode_iff by blast
      with assms(1) show False by simp
    qed
  qed
qed

lemma Restaurant_save_by_id:
  assumes "restaurant_by_id rs i = Some r" "r_id doc = i"
  shows "\<exists>r'. restaurant_by_id (Restaurant_save rs now doc) i = Some r' \<and>
              r_menus r' = r_menus doc \<and> r_displays r' = r_displays doc \<and> owner r' = owner doc"
proof (cases "restaurant_by_id rs (r_id doc) = Some doc")
  case True
  then show ?thesis using assms(2) unfolding Restaurant_save_def by simp
next
  case False
  from assms(1) have m: "r \<in> set rs" "r_id r = i"
    unfolding restaurant_by_id_def by (auto simp: find_Some_iff)
  have "find (\<lambda>y. r_id y = i)
          (map (\<lambda>y. if r_id y = i then doc\<lparr>r_updatedAt := now\<rparr> else y) rs)
        = Some (doc\<lparr>r_updatedAt := now\<rparr>)"
    using m assms(2)
    by (intro find_map_replace[of r rs r_id i "doc\<lparr>r_updatedAt := now\<rparr>"]) simp_all
  with False assms(2) show ?thesis
    unfolding Restaurant_save_def restaurant_by_id_def by simp
qed

lemma populate_currentMenu_id [simp]: "d_id (populate_currentMenu ms d) = d_id d"
  unfolding populate_currentMenu_def by (simp split: option.splits nullable.splits menu_ref.splits)

lemma populate_currentMenu_pairingCode [simp]:
  "pairingCode (populate_currentMenu ms d) = pairingCode d"
  unfolding populate_currentMenu_def by (simp split: option.splits nullable.splits menu_ref.splits)

subsection \<open>The indexes of the display collection\<close>

lemma indexes_ok_same_id:
  assumes "indexes_ok ds" "a \<in> set ds" "b \<in> set ds" "pairingCode a = Some c" "pairingCode b = Some c"
  shows "d_id a = d_id b"
proof -
  from assms(1) have "\<forall>a\<in>set ds. \<forall>b\<in>set ds.
      pairingCode a \<noteq> None \<and> pairingCode a = pairingCode b \<longrightarrow> d_id a = d_id b"
    unfolding indexes_ok_def by (rule conjunct2)
  with assms(2,3) have "pairingCode a \<noteq> None \<and> pairingCode a = pairingCode b \<longrightarrow> d_id a = d_id b"
    by blast
  with assms(4,5) show ?thesis by simp
qed


text \<open>The indexes hold of the empty collection, and \<^verbatim>\<open>save()\<close> and a deletion keep
  them: they hold of every collection the routes can build.\<close>

lemma indexes_ok_empty: "indexes_ok []"
  unfolding indexes_ok_def by simp

lemma indexes_okI:
  assumes "distinct (map d_id ds)"
    and "\<And>a b c. a \<in> set ds \<Longrightarrow> b \<in> set ds \<Longrightarrow> pairingCode a = Some c \<Longrightarrow>
           pairingCode b = Some c \<Longrightarrow> d_id a = d_id b"
  shows "indexes_ok ds"
  unfolding indexes_ok_def
proof (intro conjI ballI impI)
  show "distinct (map d_id ds)" by (rule assms(1))
next
  fix a b
  assume a: "a \<in> set ds" and b: "b \<in> set ds"
    and c: "pairingCode a \<noteq> None \<and> pairingCode a = pairingCode b"
  from c have "pairingCode a \<noteq> None" by (rule conjunct1)
  then obtain c' where ca: "pairingCode a = Some c'" by (meson option.exhaust)
  moreover from c have "pairingCode a = pairingCode b" by (rule conjunct2)
  with ca have "pairingCode b = Some c'" by metis
  ultimately show "d_id a = d_id b" using a b by (intro assms(2)[of a b c'])
qed

lemma Display_save_indexes_ok:
  assumes inv: "indexes_ok ds" and s: "Display_save ds now r isNew doc = Inr (ds', saved)"
  shows "indexes_ok ds'"
proof (cases isNew)
  case True
  from s True have s': "Display_save ds now r True doc = Inr (ds', saved)" by simp
  note i = Display_save_insert[OF s']
  have d: "distinct (map d_id ds')"
    using inv i(1,4) unfolding indexes_ok_def by simp
  have u: "d_id a = d_id b"
    if "a \<in> set ds'" "b \<in> set ds'" "pairingCode a = Some c" "pairingCode b = Some c" for a b c
  proof -
    have new: "d_id x = d_id saved"
      if "x \<in> set ds" "pairingCode x = Some c" "pairingCode saved = Some c" for x
      using that i(3) unfolding duplicate_pairingCode_iff by blast
    from that(1,2) i(1) consider "a \<in> set ds" "b \<in> set ds" | "a = saved" "b \<in> set ds"
      | "a \<in> set ds" "b = saved" | "a = saved" "b = saved" by auto
    then show ?thesis
    proof cases
      case 1 with inv that(3,4) show ?thesis by (intro indexes_ok_same_id[of ds a b c])
    next
      case 2 with new[of b] that(3,4) show ?thesis by simp
    next
      case 3 with new[of a] that(3,4) show ?thesis by simp
    next
      case 4 then show ?thesis by simp
    qed
  qed
  from d u show ?thesis by (rule indexes_okI)
next
  case False
  from s False have s': "Display_save ds now r False doc = Inr (ds', saved)" by simp
  note up = Display_save_update[OF s']
  have d: "distinct (map d_id ds')"
    using inv up(1) unfolding indexes_ok_def by (simp add: map_d_id_replace_display)
  have u: "d_id a = d_id b"
    if "a \<in> set ds'" "b \<in> set ds'" "pairingCode a = Some c" "pairingCode b = Some c" for a b c
  proof -
    have new: "d_id x = d_id saved"
      if "x \<in> set ds" "pairingCode x = Some c" "pairingCode saved = Some c" for x
      using that up(3) unfolding duplicate_pairingCode_iff by blast
    from set_replace_display[of a saved ds] set_replace_display[of b saved ds] that(1,2) up(1)
    consider "a \<in> set ds" "b \<in> set ds" | "a = saved" "b \<in> set ds"
      | "a \<in> set ds" "b = saved" | "a = saved" "b = saved" by auto
    then show ?thesis
    proof cases
      case 1 with inv that(3,4) show ?thesis by (intro indexes_ok_same_id[of ds a b c])
    next
      case 2 with new[of b] that(3,4) show ?thesis by simp
    next
      case 3 with new[of a] that(3,4) show ?thesis by simp
    next
      case 4 then show ?thesis by simp
    qed
  qed
  from d u show ?thesis by (rule indexes_okI)
qed

lemma delete_indexes_ok:
  assumes "indexes_ok ds"
  shows "indexes_ok (findByIdAndDelete_display ds i)"
proof -
  have "distinct (map d_id (findByIdAndDelete_display ds i))"
    using assms unfolding indexes_ok_def findByIdAndDelete_display_def
    by (simp add: distinct_map_filter)
  moreover have "d_id a = d_id b"
    if "a \<in> set (findByIdAndDelete_display ds i)" "b \<in> set (findByIdAndDelete_display ds i)"
      "pairingCode a = Some c" "pairingCode b = Some c" for a b c
    using that assms unfolding findByIdAndDelete_display_def
    by (intro indexes_ok_same_id[of ds a b c]) simp_all
  ultimately show ?thesis by (rule indexes_okI)
qed


subsection \<open>What a successful request has done\<close>

lemma with_auth_Inr:
  "with_auth verify bearer k = Inr x \<Longrightarrow>
     \<exists>uid. authenticateToken verify bearer = Inr uid \<and> k uid = Inr x"
  unfolding with_auth_def by (simp split: sum.splits)

lemma with_validation_Inr:
  "with_validation valid k = Inr x \<Longrightarrow> valid \<and> k = Inr x"
  unfolding with_validation_def validateRequest_def by (simp split: if_splits)

lemma get_display_by_pairingCode_found:
  assumes "findOne_pairingCode (Displays st) c = Some d"
  shows "\<exists>t. get_display_by_pairingCode st c = Inr (st, 200, DisplayBody (Some t)) \<and>
             t_id t = d_id d \<and> t_name t = d_name d \<and> t_pairingCode t = Some c"
  using assms findOne_pairingCodeD[OF assms]
  unfolding get_display_by_pairingCode_def transformDisplay_def populate_currentMenu_def
  by (simp split: nullable.splits menu_ref.splits option.splits)


lemma regenerate_pairing_code_ok:
  assumes "regenerate_pairing_code st e displayId = Inr (st', status, bd)"
  shows "\<exists>display saved new.
           findById_display (Displays st) displayId = Some display \<and>
           Display_save (Displays st) (e_now e) (e_random2 e) False
             (display\<lparr>pairingCode := Some (generateCode (e_random e))\<rparr>)
             = Inr (Displays st', saved) \<and>
           pairingCode saved = Some new \<and>
           st' = st\<lparr>Displays := Displays st'\<rparr> \<and> status = 200 \<and>
           bd = PairingCodeBody ''New pairing code generated'' new"
proof -
  from assms obtain display where
    f: "findById_display (Displays st) displayId = Some display"
    unfolding regenerate_pairing_code_def by (auto split: option.splits if_splits)
  from assms f obtain ds saved where
    s: "Display_save (Displays st) (e_now e) (e_random2 e) False
          (display\<lparr>pairingCode := Some (generateCode (e_random e))\<rparr>) = Inr (ds, saved)"
    unfolding regenerate_pairing_code_def by (auto split: sum.splits if_splits)
  from Display_save_pairingCode[OF s] obtain new where n: "pairingCode saved = Some new" by blast
  from assms f s n have "st' = st\<lparr>Displays := ds\<rparr>" "status = 200"
    "bd = PairingCodeBody ''New pairing code generated'' new"
    unfolding regenerate_pairing_code_def by (auto split: if_splits)
  with f s n show ?thesis by auto
qed

lemma create_display_ok:
  assumes "create_display st e uid restaurantId b = Inr (st', status, bd)"
  shows "\<exists>restaurant saved.
           findById_restaurant (Restaurants st) restaurantId = Some restaurant \<and>
           owner restaurant = uid \<and>
           Display_save (Displays st) (e_now e) (e_random e) True
             (new_Display (e_newId e) (b_name b) (b_currentMenu b)) = Inr (Displays st', saved) \<and>
           status = 201 \<and> bd = DisplayBody (transformDisplay (Some saved)) \<and>
           Restaurants st' =
             Restaurant_save (Restaurants st) (e_now e)
               (restaurant\<lparr>r_displays := r_displays restaurant @ [d_id saved]\<rparr>) \<and>
           Menus st' = Menus st \<and> Items st' = Items st \<and> Users st' = Users st \<and>
           joined st' = joined st \<and>
           emitted st' = emitted st @
             [(''restaurant-'' @ restaurantId, ''display-created'',
               DisplayPayload (transformDisplay (Some saved)))]"
  using assms unfolding create_display_def Let_def emit_def
  by (auto split: option.splits if_splits sum.splits)


lemma delete_menu_ok:
  assumes "delete_menu st e menuId = Inr (st', status, bd)"
  shows "Menus st' = findByIdAndDelete_menu (Menus st) menuId \<and>
         Restaurants st' =
           (case findOne_by_menu (Restaurants st) menuId of
              None \<Rightarrow> Restaurants st
            | Some restaurant \<Rightarrow>
                Restaurant_save (Restaurants st) (e_now e)
                  (restaurant\<lparr>r_menus := filter (\<lambda>i. i \<noteq> menuId) (r_menus restaurant)\<rparr>)) \<and>
         Displays st' = Displays st \<and> Items st' = Items st \<and> Users st' = Users st \<and>
         joined st' = joined st \<and>
         emitted st' = emitted st @ [(''menu-'' @ menuId, ''menu-deleted'', MenuDeleted menuId)] \<and>
         status = 200 \<and> bd = MessageBody ''Menu deleted successfully'' \<and>
         (\<exists>i menu. castObjectId menuId = Some i \<and> menu_by_id (Menus st) i = Some menu)"
  using assms unfolding delete_menu_def findById_menu_def Let_def emit_def
  by (auto split: option.splits if_splits)

lemma demo_regenerate:
  "regenerate_pairing_code demo_state demo_env demo_display_id =
     Inr (demo_regenerated, 200, PairingCodeBody ''New pairing code generated'' ''4FZYO8'')"
  by (simp add: regenerate_pairing_code_def demo_regenerated_def save_defs findById_display_def
        cast_demo_ids demo_defs gen_defs)


lemma demo_delete_menu:
  "delete_menu demo_state demo_env demo_menu_id =
     Inr (demo_menu_deleted, 200, MessageBody ''Menu deleted successfully'')"
  by (simp add: delete_menu_def find_defs Restaurant_save_def cast_demo_ids
        Let_def emit_def members_def demo_menu_deleted_def demo_defs)

lemma demo_get_by_code:
  "index_displays demo_verify demo_state demo_env None
     (GetDisplayByPairingCode (Param CHR ''D'' ''EMO123''))
     = Inr (demo_state, 200, DisplayBody (Some demo_view))"
  by (simp add: index_displays_def displayRoutes_def get_display_by_pairingCode_def
        param_string_def findOne_pairingCode_def populate_currentMenu_def menu_by_id_def
        transformDisplay_def transform_currentMenu_def ref_id_def ref_name_def
        ref_description_def ref_items_def demo_view_def demo_defs)

subsection \<open>Regenerating a pairing code (C1, C10)\<close>


lemma regenerate_one_write:
  assumes "regenerate_pairing_code st e displayId = Inr (st', status, bd)"
  shows "emitted st' = emitted st \<and> delivered st' = delivered st \<and> joined st' = joined st \<and>
         Users st' = Users st \<and> Restaurants st' = Restaurants st \<and> Menus st' = Menus st \<and>
         Items st' = Items st \<and>
         (\<exists>display new u.
            findById_display (Displays st) displayId = Some display \<and>
            bd = PairingCodeBody ''New pairing code generated'' new \<and>
            (u = updatedAt display \<or> u = e_now e) \<and>
            Displays st' =
              replace_display (display\<lparr>pairingCode := Some new, updatedAt := u\<rparr>) (Displays st))"
proof -
  from regenerate_pairing_code_ok[OF assms] obtain display saved new where
    f: "findById_display (Displays st) displayId = Some display"
    and s: "Display_save (Displays st) (e_now e) (e_random2 e) False
              (display\<lparr>pairingCode := Some (generateCode (e_random e))\<rparr>)
              = Inr (Displays st', saved)"
    and n: "pairingCode saved = Some new"
    and st': "st' = st\<lparr>Displays := Displays st'\<rparr>"
    and bd: "bd = PairingCodeBody ''New pairing code generated'' new"
    by blast
  define u where "u = updatedAt saved"
  from Display_save_update_doc[OF s] n
  have sv: "saved = display\<lparr>pairingCode := Some new, updatedAt := u\<rparr>"
    and u: "u = updatedAt display \<or> u = e_now e"
    unfolding u_def by (auto split: if_splits)
  have frame: "emitted st' = emitted st" "delivered st' = delivered st" "joined st' = joined st"
    "Users st' = Users st" "Restaurants st' = Restaurants st" "Menus st' = Menus st"
    "Items st' = Items st"
    by (subst st', simp)+
  have "Displays st' = replace_display (display\<lparr>pairingCode := Some new, updatedAt := u\<rparr>) (Displays st)"
    using Display_save_update(1)[OF s] sv by simp
  with u show ?thesis using frame f bd by blast
qed




text \<open>C10. When the regenerate route succeeds it publishes nothing: the log of
  emissions, what every socket has received and the room memberships are as before, and
  so are the users, restaurants, menus, items and every other display. Of the display
  itself the pairing code is replaced and, by the schema's \<^verbatim>\<open>timestamps\<close> option,
  \<^verbatim>\<open>updatedAt\<close> is set to the time of the save; its other fields are as before.\<close>

theorem regenerate_frame:
  assumes "regenerate_pairing_code st e displayId = Inr (st', status, bd)"
  shows "emitted st' = emitted st \<and> delivered st' = delivered st \<and> joined st' = joined st \<and>
         Users st' = Users st \<and> Restaurants st' = Restaurants st \<and> Menus st' = Menus st \<and>
         Items st' = Items st \<and>
         (\<exists>display new u.
            findById_display (Displays st) displayId = Some display \<and>
            bd = PairingCodeBody ''New pairing code generated'' new \<and>
            (u = updatedAt display \<or> u = e_now e) \<and>
            Displays st' =
              replace_display (display\<lparr>pairingCode := Some new, updatedAt := u\<rparr>) (Displays st))"
  using assms by (rule regenerate_one_write)

theorem regenerate_frame_witness:
  "regenerate_pairing_code demo_state demo_env demo_display_id =
     Inr (demo_regenerated, 200, PairingCodeBody ''New pairing code generated'' ''4FZYO8'') \<and>
   joined demo_state = [(''socket-1'', ''display-'' @ demo_display_id),
                        (''socket-1'', ''pairing-DEMO123'')] \<and>
   emitted demo_regenerated = emitted demo_state \<and>
   delivered demo_regenerated = delivered demo_state \<and>
   joined demo_regenerated = joined demo_state \<and>
   Menus demo_regenerated = Menus demo_state \<and>
   Restaurants demo_regenerated = Restaurants demo_state"
  using regenerate_frame[OF demo_regenerate] demo_regenerate
  by (simp add: demo_state_def)

text \<open>C10, as stated, fails: the regenerate route changes \<^verbatim>\<open>updatedAt\<close> of the
  display as well as its pairing code.\<close>

theorem regenerate_changes_updatedAt:
  "regenerate_pairing_code demo_state demo_env demo_display_id =
     Inr (demo_regenerated, 200, PairingCodeBody ''New pairing code generated'' ''4FZYO8'') \<and>
   map updatedAt (Displays demo_state) = [1000] \<and>
   map updatedAt (Displays demo_regenerated) = [2000]"
  using demo_regenerate by (simp add: demo_regenerated_def demo_state_def demo_display_def)

subsection \<open>Creating a display (C2, C8)\<close>

text \<open>What holds of a creation whose generated code is not empty: the display is stored
  with that code, and \<^verbatim>\<open>GET /displays/pair/:pairingCode\<close> with the code answers the new
  display, whoever asks.\<close>

lemma created_display_lookup:
  assumes "index_displays verify st e bearer (CreateDisplay restaurantId b) = Inr (st', status, bd)"
    and "generateCode (e_random e) = c # cs"
  shows "\<exists>d t. Displays st' = Displays st @ [d] \<and> d_id d = e_newId e \<and>
             pairingCode d = Some (c # cs) \<and> status = 201 \<and>
             bd = DisplayBody (transformDisplay (Some d)) \<and>
             index_displays verify' st' e' bearer' (GetDisplayByPairingCode (Param c cs)) =
               Inr (st', 200, DisplayBody (Some t)) \<and>
             t_id t = e_newId e \<and> t_name t = d_name d \<and> t_pairingCode t = Some (c # cs)"
proof -
  from assms(1) obtain uid where
    "create_display st e uid restaurantId (displaySanitize b) = Inr (st', status, bd)"
    unfolding index_displays_def displayRoutes_def
    by (auto dest!: with_auth_Inr with_validation_Inr)
  from create_display_ok[OF this] obtain saved :: display where
    s: "Display_save (Displays st) (e_now e) (e_random e) True
          (new_Display (e_newId e) (b_name (displaySanitize b)) (b_currentMenu (displaySanitize b)))
          = Inr (Displays st', saved)"
    and r: "status = 201" "bd = DisplayBody (transformDisplay (Some saved))"
    by blast
  note i = Display_save_insert[OF s]
  have c: "pairingCode saved = Some (c # cs)"
    using i(11) assms(2) by (simp add: new_Display_def falsy_def)
  have "findOne_pairingCode (Displays st') (c # cs) = Some saved"
    unfolding i(1) by (rule findOne_pairingCode_inserted[OF i(3) i(4) c])
  from get_display_by_pairingCode_found[OF this] obtain t where
    "get_display_by_pairingCode st' (c # cs) = Inr (st', 200, DisplayBody (Some t))"
    "t_id t = d_id saved" "t_name t = d_name saved" "t_pairingCode t = Some (c # cs)"
    by blast
  then have "index_displays verify' st' e' bearer' (GetDisplayByPairingCode (Param c cs)) =
      Inr (st', 200, DisplayBody (Some t))"
    unfolding index_displays_def displayRoutes_def param_string_def by simp
  moreover have "d_id saved = e_newId e" using i(2) by (simp add: new_Display_def)
  ultimately show ?thesis
    using i(1) c r \<open>t_id t = d_id saved\<close> \<open>t_name t = d_name saved\<close>
      \<open>t_pairingCode t = Some (c # cs)\<close>
    by auto
qed

lemma GET_pair_path_code:
  assumes "CHR ''/'' \<notin> set (c # cs)"
  shows "GET_pair_path (c # cs) = Some (GetDisplayByPairingCode (Param c cs))"
proof -
  have "last (c # cs) \<in> set (c # cs)" by (rule last_in_set) simp
  with assms have "last (c # cs) \<noteq> CHR ''/''" by metis
  with assms show ?thesis unfolding GET_pair_path_def by simp
qed

text \<open>C2. When \<^verbatim>\<open>Math.random()\<close> returns 0 its text in base 36 is \<open>0\<close>, and the code
  the pre-save hook generates is the empty string. The display is created (201) and
  stored with that code. No request looks it up: \<^verbatim>\<open>GET /displays/pair/\<close> is not
  matched by \<^verbatim>\<open>/pair/:pairingCode\<close> but by \<^verbatim>\<open>/:displayId\<close>, which answers 401
  without a credential and 500 with one, and \<^verbatim>\<open>POST /displays/pair\<close> answers an empty
  code with 400.\<close>

theorem empty_code_is_not_resolved:
  "radix36_fraction ''0'' \<and> generateCode ''0'' = [] \<and>
   index_displays demo_verify demo_state (demo_env\<lparr>e_random := ''0''\<rparr>) (Some ''owner-token'')
     (CreateDisplay demo_restaurant_id \<lparr>b_name = Some ''Bar Display'', b_currentMenu = None\<rparr>)
     = Inr (demo_created_codeless, 201, DisplayBody (Some demo_codeless_view)) \<and>
   map d_id (Displays demo_created_codeless) = [demo_display_id, e_newId demo_env] \<and>
   map pairingCode (Displays demo_created_codeless) = [Some ''DEMO123'', Some []] \<and>
   GET_pair_path [] = Some (GetDisplay ''pair'') \<and>
   index_displays demo_verify demo_created_codeless demo_env None (GetDisplay ''pair'')
     = Inl (HttpError 401 ''Unauthenticated'') \<and>
   index_displays demo_verify demo_created_codeless demo_env (Some ''owner-token'')
     (GetDisplay ''pair'') = Inl (HttpError 500 ''Failed to fetch display'') \<and>
   index_displays demo_verify demo_created_codeless demo_env None (PairDisplay (Some []))
     = Inl (HttpError 400 ''Pairing code is required'')"
  by (simp add: radix36_fraction_def GET_pair_path_def route_defs create_display_def
        new_Display_def uncastable_def trim_def isSpace_def get_display_def pair_display_def
        findById_restaurant_def restaurant_by_id_def Restaurant_save_def emit_def members_def
        demo_created_codeless_def demo_codeless_display_def demo_codeless_view_def
        demo_new_display_def cast_demo_ids
        transformDisplay_def transform_currentMenu_def save_defs demo_defs gen_defs)




subsection \<open>The generator (C3)\<close>

text \<open>C3. The generator takes the six characters after \<open>0.\<close> of the base-36 text of
  \<^verbatim>\<open>Math.random()\<close>; that text can be shorter. For the value one half it is
  \<open>0.i\<close>, and the code is the single character \<open>I\<close>.\<close>

theorem generateCode_one_character:
  "radix36_fraction ''0.i'' \<and> generateCode ''0.i'' = ''I'' \<and> length (generateCode ''0.i'') = 1"
  by (simp add: radix36_fraction_def gen_defs)

lemma toUpperCase_char_alnum:
  "c \<in> set (digitChars @ lowerLetters) \<Longrightarrow> toUpperCase_char c \<in> set (digitChars @ upperLetters)"
  unfolding toUpperCase_char_def lowerLetters_def upperLetters_def digitChars_def
  by auto

lemma generateCode_length: "length (generateCode r) \<le> 6"
  by (simp add: generateCode_def toUpperCase_def substring_def)

lemma generateCode_alphabet:
  assumes "radix36_fraction r"
  shows "set (generateCode r) \<subseteq> set (digitChars @ upperLetters)"
proof -
  have "set (drop 2 r) \<subseteq> set (digitChars @ lowerLetters)"
    using assms unfolding radix36_fraction_def by (auto simp: list_all_iff)
  then have "set (substring 2 8 r) \<subseteq> set (digitChars @ lowerLetters)"
    unfolding substring_def by (auto dest: in_set_takeD)
  then show ?thesis
    unfolding generateCode_def toUpperCase_def using toUpperCase_char_alnum by auto
qed

subsection \<open>Ownership (C4) and the public pairing routes (C5)\<close>

text \<open>C4. The second user owns no restaurant, and the routes that update and delete
  a menu and that update, delete, assign a menu to and regenerate the code of a display
  answer that user 200 and carry the change out on the demo restaurant's menu and
  display. The routes that create (and the item routes) compare the restaurant's owner
  with the caller; these six do not.\<close>

theorem mutations_by_another_user_succeed:
  "owner demo_restaurant \<noteq> demo_other \<and>
   demo_verify ''other-token'' = Some demo_other \<and>
   status_of (menuRoutes demo_verify demo_state demo_env (Some ''other-token'')
     (UpdateMenu demo_menu_id
        \<lparr>mb_name = Some ''Changed'', mb_description = None, mb_items = Some []\<rparr>)) = 200 \<and>
   map m_name (Menus (state_after demo_state
     (menuRoutes demo_verify demo_state demo_env (Some ''other-token'')
        (UpdateMenu demo_menu_id
           \<lparr>mb_name = Some ''Changed'', mb_description = None, mb_items = Some []\<rparr>))))
     = [''Changed''] \<and>
   status_of (menuRoutes demo_verify demo_state demo_env (Some ''other-token'')
     (DeleteMenu demo_menu_id)) = 200 \<and>
   Menus (state_after demo_state
     (menuRoutes demo_verify demo_state demo_env (Some ''other-token'')
        (DeleteMenu demo_menu_id))) = [] \<and>
   status_of (index_displays demo_verify demo_state demo_env (Some ''other-token'')
     (UpdateDisplay demo_display_id \<lparr>b_name = Some ''Changed'', b_currentMenu = None\<rparr>)) = 200 \<and>
   map d_name (Displays (state_after demo_state
     (index_displays demo_verify demo_state demo_env (Some ''other-token'')
        (UpdateDisplay demo_display_id \<lparr>b_name = Some ''Changed'', b_currentMenu = None\<rparr>))))
     = [''Changed''] \<and>
   status_of (index_displays demo_verify demo_state demo_env (Some ''other-token'')
     (DeleteDisplay demo_display_id)) = 200 \<and>
   Displays (state_after demo_state
     (index_displays demo_verify demo_state demo_env (Some ''other-token'')
        (DeleteDisplay demo_display_id))) = [] \<and>
   status_of (index_displays demo_verify demo_state demo_env (Some ''other-token'')
     (AssignMenu demo_display_id None)) = 200 \<and>
   map currentMenu (Displays (state_after demo_state
     (index_displays demo_verify demo_state demo_env (Some ''other-token'')
        (AssignMenu demo_display_id None)))) = [Null] \<and>
   status_of (index_displays demo_verify demo_state demo_env (Some ''other-token'')
     (RegeneratePairingCode demo_display_id)) = 200 \<and>
   map pairingCode (Displays (state_after demo_state
     (index_displays demo_verify demo_state demo_env (Some ''other-token'')
        (RegeneratePairingCode demo_display_id)))) = [Some ''4FZYO8'']"
proof -
  have um: "menuRoutes demo_verify demo_state demo_env (Some ''other-token'')
     (UpdateMenu demo_menu_id
        \<lparr>mb_name = Some ''Changed'', mb_description = None, mb_items = Some []\<rparr>)
     = Inr (emit (''menu-'' @ demo_menu_id) ''menu-updated''
              (MenuPayload (demo_menu\<lparr>m_name := ''Changed'', m_items := [], m_updatedAt := 2000\<rparr>))
              (demo_state\<lparr>Menus := [demo_menu\<lparr>m_name := ''Changed'', m_items := [],
                                                m_updatedAt := 2000\<rparr>]\<rparr>),
            200, MenuBody (demo_menu\<lparr>m_name := ''Changed'', m_items := [], m_updatedAt := 2000\<rparr>))"
    by (simp add: menu_route_defs update_menu_def Menu_save_def find_defs cast_items_def
          cast_demo_ids Let_def trim_def isSpace_def demo_defs)
  have dm: "menuRoutes demo_verify demo_state demo_env (Some ''other-token'')
     (DeleteMenu demo_menu_id)
     = Inr (emit (''menu-'' @ demo_menu_id) ''menu-deleted'' (MenuDeleted demo_menu_id)
              (demo_state\<lparr>Restaurants := [demo_restaurant\<lparr>r_menus := [], r_updatedAt := 2000\<rparr>],
                          Menus := []\<rparr>),
            200, MessageBody ''Menu deleted successfully'')"
    by (simp add: menu_route_defs delete_menu_def find_defs cast_demo_ids
          Restaurant_save_def Let_def demo_defs)
  have ud: "index_displays demo_verify demo_state demo_env (Some ''other-token'')
     (UpdateDisplay demo_display_id \<lparr>b_name = Some ''Changed'', b_currentMenu = None\<rparr>)
     = Inr (emit (''display-'' @ demo_display_id) ''display-updated''
              (DisplayPayload (transformDisplay
                 (Some (demo_display\<lparr>d_name := ''Changed'', updatedAt := 2000\<rparr>))))
              (demo_state\<lparr>Displays := [demo_display\<lparr>d_name := ''Changed'', updatedAt := 2000\<rparr>]\<rparr>),
            200,
            DisplayBody (transformDisplay
              (Some (demo_display\<lparr>d_name := ''Changed'', updatedAt := 2000\<rparr>))))"
    by (simp add: route_defs update_display_def uncastable_def findById_display_def
          cast_demo_ids save_defs trim_def isSpace_def demo_defs)
  have dd: "index_displays demo_verify demo_state demo_env (Some ''other-token'')
     (DeleteDisplay demo_display_id)
     = Inr (emit (''display-'' @ demo_display_id) ''display-deleted''
              (DisplayDeleted demo_display_id)
              (demo_state\<lparr>Restaurants := [demo_restaurant\<lparr>r_displays := [], r_updatedAt := 2000\<rparr>],
                          Displays := []\<rparr>),
            200, MessageBody ''Display deleted successfully'')"
    by (simp add: route_defs delete_display_def find_defs cast_demo_ids
          Restaurant_save_def Let_def demo_defs)
  have am: "state_after demo_state
     (index_displays demo_verify demo_state demo_env (Some ''other-token'')
        (AssignMenu demo_display_id None))
     = emit (''display-'' @ demo_display_id) ''menu-assigned''
         (MenuAssigned demo_display_id None)
         (demo_state\<lparr>Displays := [demo_display\<lparr>currentMenu := Null, updatedAt := 2000\<rparr>]\<rparr>)"
    "status_of (index_displays demo_verify demo_state demo_env (Some ''other-token'')
        (AssignMenu demo_display_id None)) = 200"
    by (simp_all add: route_defs assign_menu_def verify_menu_exists_def menuId_or_null_def
          findById_display_def cast_demo_ids save_defs state_after_def status_of_def demo_defs)
  have rg: "index_displays demo_verify demo_state demo_env (Some ''other-token'')
     (RegeneratePairingCode demo_display_id)
     = Inr (demo_regenerated, 200, PairingCodeBody ''New pairing code generated'' ''4FZYO8'')"
    using demo_regenerate by (simp add: route_defs demo_verify_def)
  have o: "owner demo_restaurant \<noteq> demo_other" "demo_verify ''other-token'' = Some demo_other"
    by (simp_all add: demo_defs)
  show ?thesis
    unfolding um dd dm ud am rg
    using o by (simp add: status_of_def state_after_def emit_def demo_regenerated_def
      demo_display_def demo_menu_def)
qed

text \<open>In general: what these routes answer does not depend on who the authenticated
  caller is.\<close>

lemma menu_routes_ignore_caller:
  assumes "authenticateToken verify bearer1 = Inr uid1" "authenticateToken verify bearer2 = Inr uid2"
  shows "menuRoutes verify st e bearer1 req = menuRoutes verify st e bearer2 req"
  using assms unfolding menuRoutes_def with_auth_def by (simp split: menu_request.splits)

lemma display_routes_ignore_caller:
  assumes "authenticateToken verify bearer1 = Inr uid1" "authenticateToken verify bearer2 = Inr uid2"
    and "req = UpdateDisplay displayId b \<or> req = DeleteDisplay displayId \<or>
         req = AssignMenu displayId menuId \<or> req = RegeneratePairingCode displayId"
  shows "index_displays verify st e bearer1 req = index_displays verify st e bearer2 req"
  using assms unfolding index_displays_def displayRoutes_def with_auth_def by auto

text \<open>C5. Under index.js the two pairing routes answer a request without a bearer
  credential exactly as they answer one with any credential, and never with 401.\<close>

theorem pairing_routes_are_public:
  "index_displays verify st e None (PairDisplay code) =
     index_displays verify st e bearer (PairDisplay code) \<and>
   index_displays verify st e None (GetDisplayByPairingCode c) =
     index_displays verify st e bearer (GetDisplayByPairingCode c) \<and>
   status_of (index_displays verify st e None (PairDisplay code)) \<noteq> 401 \<and>
   status_of (index_displays verify st e None (GetDisplayByPairingCode c)) \<noteq> 401"
  unfolding index_displays_def displayRoutes_def status_of_def pair_display_def
    get_display_by_pairingCode_def
  by (simp split: option.splits)

theorem pairing_routes_are_public_witness:
  "index_displays demo_verify demo_state demo_env None (PairDisplay (Some ''DEMO123'')) =
     index_displays demo_verify demo_state demo_env (Some ''owner-token'')
       (PairDisplay (Some ''DEMO123'')) \<and>
   status_of (index_displays demo_verify demo_state demo_env None
     (PairDisplay (Some ''DEMO123''))) = 200 \<and>
   status_of (index_displays demo_verify demo_state demo_env None
     (GetDisplayByPairingCode (Param CHR ''D'' ''EMO123''))) = 200"
  using pairing_routes_are_public[of demo_verify demo_state demo_env "Some ''DEMO123''"
      "Some ''owner-token''" "Param CHR ''D'' ''EMO123''"]
  by (simp add: index_displays_def displayRoutes_def status_of_def pair_display_def
        get_display_by_pairingCode_def param_string_def findOne_pairingCode_def demo_defs)

text \<open>The second server file puts \<^verbatim>\<open>authenticateToken\<close> before the whole router:
  there every route, the pairing routes included, answers 401 without a credential.\<close>

lemma guarded_displays_unauthenticated:
  "guarded_displays verify st e None req = Inl (HttpError 401 ''Unauthenticated'')"
  unfolding guarded_displays_def with_auth_def authenticateToken_def by simp

subsection \<open>The transformed display (C6)\<close>

text \<open>What \<^verbatim>\<open>transformDisplay\<close> makes of the three kinds of \<^verbatim>\<open>currentMenu\<close>: a
  populated menu is flattened, an absent or \<^verbatim>\<open>null\<close> reference is \<^verbatim>\<open>null\<close>, and an
  ObjectId is flattened as well, to its id and an empty list of items. No value is
  passed through unchanged.\<close>

lemma transform_currentMenu_cases:
  "transform_currentMenu (Val (Populated m)) =
     Some (FlatMenu \<lparr>fm_id = m_id m, fm_name = Some (m_name m),
             fm_description = m_description m, fm_items = m_items m\<rparr>)"
  "transform_currentMenu Absent = None"
  "transform_currentMenu Null = None"
  "transform_currentMenu (Val (Ref i)) =
     Some (FlatMenu \<lparr>fm_id = i, fm_name = None, fm_description = None, fm_items = []\<rparr>)"
  "transform_currentMenu cm \<noteq> Some (Unchanged v)"
  by (simp_all add: transform_currentMenu_def ref_id_def ref_name_def ref_description_def
        ref_items_def split: nullable.splits menu_ref.splits)

text \<open>C6. The kitchen display holds the ObjectId of the lunch menu.
  \<^verbatim>\<open>PUT /displays/:displayId\<close> renames the display and answers, and publishes, the
  transformed display without populating it: its \<^verbatim>\<open>currentMenu\<close> is not the id but
  an object with the id and an empty list of items.\<close>

theorem bare_menu_reference_is_flattened:
  "currentMenu demo_display = Val (Ref demo_menu_id) \<and>
   transformDisplay (Some demo_display) = Some demo_stored_view \<and>
   t_currentMenu demo_stored_view =
     Some (FlatMenu \<lparr>fm_id = demo_menu_id, fm_name = None, fm_description = None,
             fm_items = []\<rparr>) \<and>
   t_currentMenu demo_renamed_view = t_currentMenu demo_stored_view \<and>
   index_displays demo_verify demo_state demo_env (Some ''owner-token'')
     (UpdateDisplay demo_display_id \<lparr>b_name = Some ''Counter Display'', b_currentMenu = None\<rparr>)
     = Inr (emit (''display-'' @ demo_display_id) ''display-updated''
              (DisplayPayload (Some demo_renamed_view))
              (demo_state\<lparr>Displays :=
                 [demo_display\<lparr>d_name := ''Counter Display'', updatedAt := 2000\<rparr>]\<rparr>),
            200, DisplayBody (Some demo_renamed_view))"
  by (simp add: route_defs update_display_def uncastable_def findById_display_def
        cast_demo_ids save_defs trim_def isSpace_def transformDisplay_def
        transform_currentMenu_def ref_id_def ref_name_def ref_description_def ref_items_def
        demo_stored_view_def demo_renamed_view_def demo_defs)

text \<open>\<^verbatim>\<open>GET /restaurants/:restaurantId\<close> sends the displays of the restaurant as the
  populated documents, without \<^verbatim>\<open>transformDisplay\<close>.\<close>

lemma restaurant_route_sends_documents:
  "restaurants_get demo_verify demo_state (Some ''owner-token'') demo_restaurant_id
     = Inr (demo_state, 200, RestaurantBody demo_populated_restaurant) \<and>
   document_displays_of (RestaurantBody demo_populated_restaurant) = [demo_display]"
  by (simp add: restaurants_get_def with_auth_def authenticateToken_def get_restaurant_def
        find_defs cast_demo_ids List.map_filter_def document_displays_of_def
        demo_populated_restaurant_def demo_defs)

subsection \<open>Toggling an item (C7)\<close>

text \<open>C7. The toggle route looks the restaurant up by \<^verbatim>\<open>item.restaurant\<close>, a path
  the Item schema does not declare: the lookup finds nothing and the route answers 403
  to the owner of the restaurant that lists the item. Nothing is toggled and nothing is
  published.\<close>

theorem toggle_item_denied_to_owner:
  "items_toggle demo_verify demo_state demo_env (Some ''owner-token'') demo_item_id
     = Inl (HttpError 403 ''Access denied'')"
  by (simp add: items_toggle_def with_auth_def authenticateToken_def toggle_item_def
        findById_item_def item_by_id_def cast_demo_ids findById_restaurant_opt_def
        item_restaurant_def demo_defs)

lemma toggle_item_never_succeeds:
  "toggle_item st e uid itemId = Inl (HttpError 500 ''Failed to toggle item availability'') \<or>
   toggle_item st e uid itemId = Inl (HttpError 404 ''Item not found'') \<or>
   toggle_item st e uid itemId = Inl (HttpError 403 ''Access denied'')"
  unfolding toggle_item_def findById_restaurant_opt_def item_restaurant_def
  by (simp split: option.splits)

lemma toggle_item_stored:
  "findById_item (Items st) itemId = Some it \<Longrightarrow>
     toggle_item st e uid itemId = Inl (HttpError 403 ''Access denied'')"
  unfolding toggle_item_def findById_restaurant_opt_def item_restaurant_def findById_item_def
  by (simp split: option.splits)

subsection \<open>Deleting a menu (C9)\<close>

text \<open>What holds of every successful \<^verbatim>\<open>DELETE /menus/:menuId\<close>: the menu is gone from
  the menu collection and the display collection is untouched, so a display whose
  \<^verbatim>\<open>currentMenu\<close> is the id of the menu still holds it, and the id now refers to no
  menu.\<close>

lemma delete_menu_leaves_displays:
  assumes "delete_menu st e menuId = Inr (st', status, bd)"
  shows "\<exists>i. castObjectId menuId = Some i \<and> menu_by_id (Menus st') i = None \<and>
             Displays st' = Displays st \<and>
             (\<forall>d\<in>set (Displays st). currentMenu d = Val (Ref i) \<longrightarrow>
                  d \<in> set (Displays st') \<and>
                  currentMenu (populate_currentMenu (Menus st') d) = Null)"
proof -
  note ok = delete_menu_ok[OF assms]
  then obtain i where i: "castObjectId menuId = Some i" by blast
  have gone: "menu_by_id (Menus st') i = None"
    using ok i unfolding menu_by_id_def findByIdAndDelete_menu_def
    by (simp add: find_None_iff)
  have dangling: "currentMenu (populate_currentMenu (Menus st') d) = Null"
    if "currentMenu d = Val (Ref i)" for d
    using that gone unfolding populate_currentMenu_def by simp
  from gone dangling ok i show ?thesis by auto
qed

text \<open>When the request writes the id as mongoose prints it (in lower case), the
  restaurant that listed the menu no longer lists it.\<close>

lemma delete_menu_unlists:
  assumes ok: "delete_menu st e menuId = Inr (st', status, bd)"
    and c: "castObjectId menuId = Some menuId"
    and r: "findOne_by_menu (Restaurants st) menuId = Some r"
  shows "\<exists>r'. restaurant_by_id (Restaurants st') (r_id r) = Some r' \<and> menuId \<notin> set (r_menus r')"
proof -
  from r c have "r \<in> set (Restaurants st)"
    unfolding findOne_by_menu_def by (auto simp: find_Some_iff)
  then obtain r0 where r0: "restaurant_by_id (Restaurants st) (r_id r) = Some r0"
    unfolding restaurant_by_id_def by (cases "find (\<lambda>x. r_id x = r_id r) (Restaurants st)")
      (auto simp: find_None_iff)
  from Restaurant_save_by_id[OF r0, of
      "r\<lparr>r_menus := filter (\<lambda>i. i \<noteq> menuId) (r_menus r)\<rparr>" "e_now e"]
  obtain r' where
    "restaurant_by_id
       (Restaurant_save (Restaurants st) (e_now e)
          (r\<lparr>r_menus := filter (\<lambda>i. i \<noteq> menuId) (r_menus r)\<rparr>)) (r_id r) = Some r'"
    "r_menus r' = filter (\<lambda>i. i \<noteq> menuId) (r_menus r)"
    by auto
  with delete_menu_ok[OF ok] r show ?thesis by auto
qed

text \<open>C9. \<^verbatim>\<open>DELETE /menus/64B7F0A30000000000000001\<close> names the lunch menu with
  upper-case digits. The id casts to the id of the lunch menu: the menu is found and
  deleted and the route answers 200. The restaurant's list is filtered by comparing
  the text of each id with the string of the request, which differs from the text of
  every stored id: nothing is removed, and the restaurant still lists the deleted menu.
  The kitchen display still holds the id.\<close>

theorem delete_menu_keeps_listing:
  "castObjectId ''64B7F0A30000000000000001'' = Some demo_menu_id \<and>
   map m_id (Menus demo_state) = [demo_menu_id] \<and>
   map r_menus (Restaurants demo_state) = [[demo_menu_id]] \<and>
   status_of (menuRoutes demo_verify demo_state demo_env (Some ''owner-token'')
     (DeleteMenu ''64B7F0A30000000000000001'')) = 200 \<and>
   Menus (state_after demo_state
     (menuRoutes demo_verify demo_state demo_env (Some ''owner-token'')
        (DeleteMenu ''64B7F0A30000000000000001''))) = [] \<and>
   map r_menus (Restaurants (state_after demo_state
     (menuRoutes demo_verify demo_state demo_env (Some ''owner-token'')
        (DeleteMenu ''64B7F0A30000000000000001'')))) = [[demo_menu_id]] \<and>
   map currentMenu (Displays (state_after demo_state
     (menuRoutes demo_verify demo_state demo_env (Some ''owner-token'')
        (DeleteMenu ''64B7F0A30000000000000001'')))) = [Val (Ref demo_menu_id)]"
proof -
  have dm: "menuRoutes demo_verify demo_state demo_env (Some ''owner-token'')
     (DeleteMenu ''64B7F0A30000000000000001'')
     = Inr (emit ''menu-64B7F0A30000000000000001'' ''menu-deleted''
              (MenuDeleted ''64B7F0A30000000000000001'') (demo_state\<lparr>Menus := []\<rparr>),
            200, MessageBody ''Menu deleted successfully'')"
    by (simp add: menu_route_defs delete_menu_def find_defs cast_demo_ids
          Restaurant_save_def Let_def demo_defs)
  show ?thesis
    unfolding dm
    by (simp add: status_of_def state_after_def emit_def cast_demo_ids demo_defs)
qed

end
